theory Spec2Isabelle
  imports Complex_Main
begin

section \<open>Python values and the operations the scripts apply to them\<close>

text \<open>
  The two scripts \<^verbatim>\<open>geo2wiki-osm.py\<close> (suffix \<open>_v1\<close> below) and
  \<^verbatim>\<open>geo2wiki-osm_v3.py\<close> (suffix \<open>_v3\<close>) work on decoded JSON. A decoded
  value is \<open>json\<close>; a dict is an association list read with \<open>map_of\<close> (a decoded
  dict has distinct keys).

  A number \<open>JNum x\<close> is an \<^verbatim>\<open>int\<close> or a finite \<^verbatim>\<open>float\<close> of value \<open>x\<close>; the
  values \<^verbatim>\<open>nan\<close> and \<^verbatim>\<open>inf\<close>, which Python's decoder also gives, are outside the
  model.

  A Python string is a list of code points, here the list of the bytes that UTF-8 gives
  them one after the other: an ASCII character is one byte, itself, which is all that the
  literals of the scripts hold, and any other code point is a lead byte followed by
  continuation bytes (\<open>0x80\<close> to \<open>0xBF\<close>). The surrogates (U+D800 to U+DFFF, which the
  decoder gives for an unpaired \<^verbatim>\<open>\ud...\<close> escape) are written like the other code
  points of their range, \<open>0xED\<close> and two continuation bytes, the first from \<open>0xA0\<close> on.
\<close>

datatype json =
    JNull
  | JBool bool
  | JNum real
  | JStr string
  | JArr "json list"
  | JObj "(string \<times> json) list"

text \<open>The code points of a string, each with its bytes.\<close>

definition continuation :: "char \<Rightarrow> bool" where
  "continuation c \<longleftrightarrow> 0x80 \<le> (of_char c :: nat) \<and> (of_char c :: nat) < 0xC0"

function code_points :: "string \<Rightarrow> string list" where
  "code_points [] = []"
| "code_points (c # cs) =
     (c # takeWhile continuation cs) # code_points (dropWhile continuation cs)"
  by pat_completeness auto

termination
  by (relation "measure length") (auto simp: le_imp_less_Suc length_dropWhile_le)

datatype py_error =
    KeyError
  | TypeError
  | AttributeError
  | ValueError
  | StopIteration
  | ZeroDivisionError
  | OverflowError
  | RecursionError
  | UnicodeEncodeError
  | JSONDecodeError

definition bindE :: "'e + 'a \<Rightarrow> ('a \<Rightarrow> 'e + 'b) \<Rightarrow> 'e + 'b" where
  "bindE m f = (case m of Inl e \<Rightarrow> Inl e | Inr x \<Rightarrow> f x)"

fun mapE :: "('a \<Rightarrow> 'e + 'b) \<Rightarrow> 'a list \<Rightarrow> 'e + 'b list" where
  "mapE f [] = Inr []"
| "mapE f (x # xs) = bindE (f x) (\<lambda>y. bindE (mapE f xs) (\<lambda>ys. Inr (y # ys)))"

text \<open>Truth value of a Python object: \<^verbatim>\<open>if x:\<close>, \<^verbatim>\<open>not x\<close>, \<^verbatim>\<open>x and y\<close>.\<close>

fun py_truthy :: "json \<Rightarrow> bool" where
  "py_truthy JNull = False"
| "py_truthy (JBool b) = b"
| "py_truthy (JNum x) = (x \<noteq> 0)"
| "py_truthy (JStr s) = (s \<noteq> [])"
| "py_truthy (JArr xs) = (xs \<noteq> [])"
| "py_truthy (JObj kvs) = (kvs \<noteq> [])"

text \<open>\<^verbatim>\<open>x[k]\<close> with a string key: only a dict accepts it.\<close>

fun py_getitem :: "json \<Rightarrow> string \<Rightarrow> py_error + json" where
  "py_getitem (JObj kvs) k = (case map_of kvs k of None \<Rightarrow> Inl KeyError | Some v \<Rightarrow> Inr v)"
| "py_getitem _ k = Inl TypeError"

fun is_prefix :: "string \<Rightarrow> string \<Rightarrow> bool" where
  "is_prefix [] ys = True"
| "is_prefix (x # xs) [] = False"
| "is_prefix (x # xs) (y # ys) = (x = y \<and> is_prefix xs ys)"

fun is_substring :: "string \<Rightarrow> string \<Rightarrow> bool" where
  "is_substring xs [] = (xs = [])"
| "is_substring xs (y # ys) = (is_prefix xs (y # ys) \<or> is_substring xs ys)"

text \<open>\<^verbatim>\<open>k in x\<close> with a string \<open>k\<close>: key of a dict, element of a list, substring of a
  string; the other values are not containers.\<close>

fun py_contains :: "string \<Rightarrow> json \<Rightarrow> py_error + bool" where
  "py_contains k (JObj kvs) = Inr (k \<in> set (map fst kvs))"
| "py_contains k (JArr xs) = Inr (JStr k \<in> set xs)"
| "py_contains k (JStr s) = Inr (is_substring k s)"
| "py_contains k _ = Inl TypeError"

text \<open>\<^verbatim>\<open>x.get(k, d)\<close>: a method of dicts only.\<close>

fun py_get :: "json \<Rightarrow> string \<Rightarrow> json \<Rightarrow> py_error + json" where
  "py_get (JObj kvs) k d = Inr (case map_of kvs k of None \<Rightarrow> d | Some v \<Rightarrow> v)"
| "py_get _ k d = Inl AttributeError"

text \<open>\<^verbatim>\<open>for y in x\<close>: the elements of a list, the keys of a dict, the characters of a
  string.\<close>

fun py_iter :: "json \<Rightarrow> py_error + json list" where
  "py_iter (JArr xs) = Inr xs"
| "py_iter (JObj kvs) = Inr (map (\<lambda>kv. JStr (fst kv)) kvs)"
| "py_iter (JStr s) = Inr (map JStr (code_points s))"
| "py_iter _ = Inl TypeError"

fun py_len :: "json \<Rightarrow> py_error + nat" where
  "py_len (JArr xs) = Inr (length xs)"
| "py_len (JObj kvs) = Inr (length kvs)"
| "py_len (JStr s) = Inr (length (code_points s))"
| "py_len _ = Inl TypeError"

text \<open>\<^verbatim>\<open>x.values()\<close>: a method of dicts only.\<close>

fun py_values :: "json \<Rightarrow> py_error + json list" where
  "py_values (JObj kvs) = Inr (map snd kvs)"
| "py_values _ = Inl AttributeError"

text \<open>\<^verbatim>\<open>next(iter(xs))\<close>.\<close>

fun py_next :: "json list \<Rightarrow> py_error + json" where
  "py_next [] = Inl StopIteration"
| "py_next (x # xs) = Inr x"

text \<open>\<^verbatim>\<open>xs[:n]\<close> on a list: a negative \<open>n\<close> counts from the end.\<close>

definition slice_to :: "'a list \<Rightarrow> int \<Rightarrow> 'a list" where
  "slice_to xs n = (if 0 \<le> n then take (nat n) xs else take (length xs - nat (- n)) xs)"

text \<open>\<^verbatim>\<open>x[:n]\<close> on a decoded value: lists and strings can be sliced (a dict cannot; the
  exception is a TypeError up to Python 3.11).\<close>

fun py_slice_to :: "json \<Rightarrow> int \<Rightarrow> py_error + json" where
  "py_slice_to (JArr xs) n = Inr (JArr (slice_to xs n))"
| "py_slice_to (JStr s) n = Inr (JStr (concat (slice_to (code_points s) n)))"
| "py_slice_to _ n = Inl TypeError"

text \<open>A value used as a number by \<^verbatim>\<open>+\<close>, \<^verbatim>\<open>-\<close> and the \<^verbatim>\<open>math\<close> functions:
  \<^verbatim>\<open>True\<close> and \<^verbatim>\<open>False\<close> count as 1 and 0.\<close>

fun py_float :: "json \<Rightarrow> py_error + real" where
  "py_float (JNum x) = Inr x"
| "py_float (JBool b) = Inr (if b then 1 else 0)"
| "py_float _ = Inl TypeError"

text \<open>The same where the number must fit a \<^verbatim>\<open>float\<close>, as an argument of a \<^verbatim>\<open>math\<close>
  function or the other operand of a float: an \<^verbatim>\<open>int\<close> that rounds to no finite
  float, one of magnitude \<open>float_limit\<close> or more, raises \<^verbatim>\<open>OverflowError\<close>.\<close>

definition float_limit :: real where
  "float_limit = 2 ^ 1024 - 2 ^ 970"

definition as_double :: "json \<Rightarrow> py_error + real" where
  "as_double v =
     (case py_float v of
        Inl e \<Rightarrow> Inl e
      | Inr x \<Rightarrow> if \<bar>x\<bar> < float_limit then Inr x else Inl OverflowError)"

text \<open>\<^verbatim>\<open>sum(xs)\<close>: starts from 0 and adds from the left.\<close>

fun py_sum :: "json list \<Rightarrow> py_error + real" where
  "py_sum [] = Inr 0"
| "py_sum (x # xs) = bindE (py_float x) (\<lambda>v. bindE (py_sum xs) (\<lambda>s. Inr (v + s)))"

text \<open>\<^verbatim>\<open>round(x)\<close> with one argument: an \<^verbatim>\<open>int\<close>, ties going to the even neighbour.\<close>

definition py_round :: "real \<Rightarrow> int" where
  "py_round x =
     (let f = \<lfloor>x\<rfloor>; d = x - of_int f
      in if d < 1 / 2 then f else if 1 / 2 < d then f + 1 else if even f then f else f + 1)"

text \<open>\<^verbatim>\<open>str(n)\<close> of an \<^verbatim>\<open>int\<close>, as the f-strings print a status code.\<close>

fun str_nat :: "nat \<Rightarrow> string" where
  "str_nat n =
     (if n < 10 then [''0123456789'' ! n]
      else str_nat (n div 10) @ [''0123456789'' ! (n mod 10)])"

declare str_nat.simps [simp del]

definition str_int :: "int \<Rightarrow> string" where
  "str_int i = (if i < 0 then CHR ''-'' # str_nat (nat (- i)) else str_nat (nat i))"

text \<open>\<^verbatim>\<open>s.encode("utf-8")\<close> raises \<^verbatim>\<open>UnicodeEncodeError\<close> on a surrogate, and on nothing
  else.\<close>

fun encodable :: "string \<Rightarrow> bool" where
  "encodable (a # b # cs) =
     (\<not> (a = CHR 0xED \<and> 0xA0 \<le> (of_char b :: nat)) \<and> encodable (b # cs))"
| "encodable cs = True"

text \<open>Whether the text \<^verbatim>\<open>str(v)\<close> can be encoded: a string is its own text, and the
  text of any other value is ASCII but for the strings inside a list or a dict, which
  \<^verbatim>\<open>repr\<close> writes with every surrogate escaped.\<close>

fun text_ok :: "json \<Rightarrow> bool" where
  "text_ok (JStr s) = encodable s"
| "text_ok _ = True"

section \<open>HTTP responses and what a client call does\<close>

text \<open>
  A response of \<^verbatim>\<open>requests.get\<close>: its status code and its body, \<open>None\<close> when the body
  is not JSON (then \<^verbatim>\<open>response.json()\<close> raises). Every request is given a response:
  a request that \<^verbatim>\<open>requests.get\<close> itself fails to complete (no connection, no name
  resolution), or that is left without an answer (the scripts set no timeout), is
  outside the model.
\<close>

datatype response = Response (status_code: int) (body: "json option")

definition response_json :: "response \<Rightarrow> py_error + json" where
  "response_json r = (case body r of None \<Rightarrow> Inl JSONDecodeError | Some j \<Rightarrow> Inr j)"

text \<open>The request a client sends, with the arguments that vary.\<close>

datatype request =
    Geosearch real real int int
  | ArticleInfo json
  | ReverseGeocode real real
  | OverpassQuery int real real

text \<open>What a client call does besides returning: requests, printed lines, pauses in
  seconds.\<close>

text \<open>A printed line is an f-string: literal text and \<^verbatim>\<open>str\<close> of interpolated values.\<close>

datatype fragment = Text string | Str json

datatype event = HttpGet request | Print "fragment list" | Sleep nat

type_synonym 'a called = "(py_error + 'a) \<times> event list"

text \<open>
  \<^verbatim>\<open>requests.get\<close> encodes the values of \<^verbatim>\<open>params\<close> before it sends anything, and
  raises \<^verbatim>\<open>UnicodeEncodeError\<close> on a surrogate: in a string, in the strings and keys
  that a list or a dict is taken apart into, and in the strings of a list inside a
  list. \<open>param_ok v\<close> says that \<open>v\<close> can be sent. (Standard output is taken to accept
  every text that can be encoded.)
\<close>

fun item_ok :: "json \<Rightarrow> bool" where
  "item_ok (JStr s) = encodable s"
| "item_ok (JArr xs) = list_all text_ok xs"
| "item_ok (JObj kvs) = list_all (\<lambda>kv. encodable (fst kv)) kvs"
| "item_ok _ = True"

fun param_ok :: "json \<Rightarrow> bool" where
  "param_ok (JStr s) = encodable s"
| "param_ok (JArr xs) = list_all item_ok xs"
| "param_ok (JObj kvs) = list_all (\<lambda>kv. encodable (fst kv)) kvs"
| "param_ok _ = True"

subsection \<open>The clients of \<^verbatim>\<open>geo2wiki-osm_v3.py\<close>\<close>

definition get_wikipedia_url_v3 :: "json \<Rightarrow> response \<Rightarrow> json called" where
  "get_wikipedia_url_v3 title response =
     (if \<not> param_ok title then (Inl UnicodeEncodeError, [])
      else if status_code response = 200 then
        (bindE (response_json response) (\<lambda>data.
         bindE (py_getitem data ''query'') (\<lambda>q.
         bindE (py_getitem q ''pages'') (\<lambda>pages.
         bindE (py_values pages) (\<lambda>vs.
         bindE (py_next vs) (\<lambda>page.
         py_getitem page ''fullurl''))))),
         [HttpGet (ArticleInfo title)])
      else
        (Inr JNull,
         [HttpGet (ArticleInfo title),
          Print [Text ''Error fetching URL for '', Str title,
                 Text ('': '' @ str_int (status_code response))]]))"

definition get_wikipedia_geosearch_v3 ::
  "real \<Rightarrow> real \<Rightarrow> int \<Rightarrow> int \<Rightarrow> response \<Rightarrow> json called" where
  "get_wikipedia_geosearch_v3 lat lon radius limit response =
     (if status_code response = 200 then
        (response_json response, [HttpGet (Geosearch lat lon radius limit)])
      else
        (Inr JNull,
         [HttpGet (Geosearch lat lon radius limit),
          Print [Text (''Error fetching Wikipedia geosearch data: '' @ str_int (status_code response))]]))"

subsection \<open>The client of \<^verbatim>\<open>geo2wiki-osm.py\<close> that differs\<close>

definition get_wikipedia_geosearch_v1 ::
  "real \<Rightarrow> real \<Rightarrow> int \<Rightarrow> int \<Rightarrow> response \<Rightarrow> json list called" where
  "get_wikipedia_geosearch_v1 lat lon radius limit response =
     (if status_code response = 200 then
        (bindE (response_json response) (\<lambda>data.
         bindE (py_getitem data ''query'') (\<lambda>q.
         bindE (py_getitem q ''geosearch'') (\<lambda>g.
         bindE (py_iter g) (mapE (\<lambda>item.
           bindE (py_getitem item ''title'') (\<lambda>t.
           bindE (py_getitem item ''lat'') (\<lambda>la.
           bindE (py_getitem item ''lon'') (\<lambda>lo.
           Inr (JObj [(''title'', t), (''lat'', la), (''lon'', lo)]))))))))),
         [HttpGet (Geosearch lat lon radius limit)])
      else
        (Inr [],
         [HttpGet (Geosearch lat lon radius limit),
          Print [Text (''Error fetching Wikipedia geosearch data: '' @ str_int (status_code response))]]))"

subsection \<open>The clients both scripts share\<close>

definition get_osm_administrative_info :: "real \<Rightarrow> real \<Rightarrow> response \<Rightarrow> json called" where
  "get_osm_administrative_info lat lon response =
     (if status_code response = 200 then
        (response_json response, [HttpGet (ReverseGeocode lat lon)])
      else
        (Inr JNull,
         [HttpGet (ReverseGeocode lat lon),
          Print [Text (''Error fetching OSM data: '' @ str_int (status_code response))]]))"

text \<open>
  \<^verbatim>\<open>get_osm_nearby_features\<close> calls itself after a 429, each call inside the last.
  CPython lets calls nest up to \<^verbatim>\<open>sys.getrecursionlimit()\<close> frames deep (1000, which
  neither script changes) and raises \<^verbatim>\<open>RecursionError\<close> beyond; the frames of the
  worker thread and of \<^verbatim>\<open>requests.get\<close> count too. \<open>room\<close> is the number of nested
  calls of \<^verbatim>\<open>get_osm_nearby_features\<close> that this leaves room for: a call made when none
  is left raises \<^verbatim>\<open>RecursionError\<close> (how far that last call gets before it does is
  not modelled: it is given no event). \<open>responses\<close> are the server's answers to the
  successive requests of one call from the loop, \<open>n\<close> the number of requests sent so far,
  \<open>evs\<close> what the call did so far.
\<close>

fun get_osm_nearby_features ::
  "nat \<Rightarrow> real \<Rightarrow> real \<Rightarrow> int \<Rightarrow> (nat \<Rightarrow> response) \<Rightarrow> nat \<Rightarrow> event list \<Rightarrow> json called" where
  "get_osm_nearby_features room lat lon radius responses n evs =
     (if room = 0 then (Inl RecursionError, evs)
      else
        let response = responses n;
            sent = evs @ [HttpGet (OverpassQuery radius lat lon)]
        in if status_code response = 200 then (response_json response, sent)
           else if status_code response = 429 then
             get_osm_nearby_features (room - 1) lat lon radius responses (Suc n)
               (sent @ [Print [Text ''Rate limit hit, sleeping for 1 minute''], Sleep 60])
           else
             (Inr JNull,
              sent @ [Print [Text (''Error fetching OSM features: '' @ str_int (status_code response))]]))"

declare get_osm_nearby_features.simps [simp del]

section \<open>Distances and centroids\<close>

text \<open>
  A Python \<^verbatim>\<open>float\<close> is an IEEE double. What an operation on floats or a function of
  \<^verbatim>\<open>math\<close> returns depends on how it rounds, and for the functions on the C library
  of the platform; so \<^verbatim>\<open>haversine_distance\<close> is modelled for any behaviour \<open>F\<close> of the
  operations it applies: \<open>fl_sub F x y\<close> is \<^verbatim>\<open>x - y\<close>, \<open>fl_sq F x\<close> is
  \<^verbatim>\<open>x ** 2\<close>, \<open>fl_radians F x\<close> is \<^verbatim>\<open>math.radians(x)\<close>, and so on. Their arguments
  and values are finite here (an operand that is an \<^verbatim>\<open>int\<close> is converted first).
\<close>

record arith =
  fl_add :: "real \<Rightarrow> real \<Rightarrow> real"
  fl_sub :: "real \<Rightarrow> real \<Rightarrow> real"
  fl_mul :: "real \<Rightarrow> real \<Rightarrow> real"
  fl_div :: "real \<Rightarrow> real \<Rightarrow> real"
  fl_sq :: "real \<Rightarrow> real"
  fl_radians :: "real \<Rightarrow> real"
  fl_sin :: "real \<Rightarrow> real"
  fl_cos :: "real \<Rightarrow> real"
  fl_sqrt :: "real \<Rightarrow> real"
  fl_atan2 :: "real \<Rightarrow> real \<Rightarrow> real"

text \<open>The functions of mathematics that they approximate.\<close>

definition radians :: "real \<Rightarrow> real" where
  "radians x = x * pi / 180"

text \<open>The angle of the point \<open>(x, y)\<close>, for \<^verbatim>\<open>math.atan2(y, x)\<close>.\<close>

definition atan2 :: "real \<Rightarrow> real \<Rightarrow> real" where
  "atan2 y x =
     (if 0 < x then arctan (y / x)
      else if x < 0 then (if 0 \<le> y then arctan (y / x) + pi else arctan (y / x) - pi)
      else if 0 < y then pi / 2
      else if y < 0 then - (pi / 2)
      else 0)"

definition exact :: arith where
  "exact = \<lparr>fl_add = (+), fl_sub = (-), fl_mul = (*), fl_div = (/), fl_sq = (\<lambda>x. x\<^sup>2),
     fl_radians = radians, fl_sin = sin, fl_cos = cos, fl_sqrt = sqrt, fl_atan2 = atan2\<rparr>"

text \<open>\<^verbatim>\<open>math.sqrt\<close> raises on a negative argument.\<close>

definition py_sqrt :: "arith \<Rightarrow> real \<Rightarrow> py_error + real" where
  "py_sqrt F x = (if x < 0 then Inl ValueError else Inr (fl_sqrt F x))"

text \<open>\<^verbatim>\<open>haversine_distance\<close> of \<^verbatim>\<open>geo2wiki-osm_v3.py\<close>. The centre is a pair of float
  constants; the other point comes from a response. \<^verbatim>\<open>round\<close> of a float is exact.\<close>

definition haversine_distance :: "arith \<Rightarrow> real \<Rightarrow> real \<Rightarrow> json \<Rightarrow> json \<Rightarrow> py_error + int" where
  "haversine_distance F lat1 lon1 lat2 lon2 =
     bindE (as_double lat2) (\<lambda>la2.
     bindE (as_double lon2) (\<lambda>lo2.
       let R = 6371000;
           phi1 = fl_radians F lat1;
           phi2 = fl_radians F la2;
           delta_phi = fl_radians F (fl_sub F la2 lat1);
           delta_lambda = fl_radians F (fl_sub F lo2 lon1);
           a = fl_add F (fl_sq F (fl_sin F (fl_div F delta_phi 2)))
                 (fl_mul F (fl_mul F (fl_cos F phi1) (fl_cos F phi2))
                           (fl_sq F (fl_sin F (fl_div F delta_lambda 2))))
       in bindE (py_sqrt F a) (\<lambda>sa.
          bindE (py_sqrt F (fl_sub F 1 a)) (\<lambda>sb.
          Inr (py_round (fl_mul F R (fl_mul F 2 (fl_atan2 F sa sb))))))))"

text \<open>\<^verbatim>\<open>calculate_centroid\<close> of \<^verbatim>\<open>geo2wiki-osm_v3.py\<close>: the mean of the vertices, here
  the sum and the quotient of mathematics (what the float operations round away is left
  out).\<close>

definition vertex_mean :: "string \<Rightarrow> json \<Rightarrow> py_error + real" where
  "vertex_mean key geometry =
     bindE (py_iter geometry) (\<lambda>nodes.
     bindE (mapE (\<lambda>node. py_getitem node key) nodes) (\<lambda>vs.
     bindE (py_sum vs) (\<lambda>s.
     bindE (py_len geometry) (\<lambda>n.
     if n = 0 then Inl ZeroDivisionError else Inr (s / real n)))))"

definition calculate_centroid_v3 :: "json \<Rightarrow> py_error + json \<times> json" where
  "calculate_centroid_v3 geometry =
     (if \<not> py_truthy geometry then Inr (JNull, JNull)
      else bindE (vertex_mean ''lat'' geometry) (\<lambda>lat.
           bindE (vertex_mean ''lon'' geometry) (\<lambda>lon.
           Inr (JNum lat, JNum lon))))"

subsection \<open>The packages \<^verbatim>\<open>geo2wiki-osm.py\<close> imports\<close>

text \<open>
  \<^verbatim>\<open>geo2wiki-osm.py\<close> takes its distance from the package \<^verbatim>\<open>haversine\<close> and its
  centroid from \<^verbatim>\<open>shapely\<close>. Neither is part of the repository, so that script is
  modelled for any behaviour of the two calls:
  \<open>lib_haversine c q\<close> is \<^verbatim>\<open>haversine(c, q, unit=Unit.METERS)\<close> and
  \<open>lib_centroid cs\<close> is \<^verbatim>\<open>Polygon(cs).centroid\<close>, as \<open>(x, y)\<close>.
\<close>

record libs =
  lib_haversine :: "real \<times> real \<Rightarrow> json \<times> json \<Rightarrow> py_error + real"
  lib_centroid :: "(json \<times> json) list \<Rightarrow> py_error + real \<times> real"

text \<open>
  The package \<^verbatim>\<open>haversine\<close> as published: the same formula with \<^verbatim>\<open>asin\<close>, the mean
  Earth radius 6371.0088 km, no rounding; its recent releases reject a latitude outside
  \<open>[-90, 90]\<close> and a longitude outside \<open>[-180, 180]\<close>. This model and the next
  compute in exact arithmetic; they serve for the examples and for the triangle of the
  specification, and every other property of \<^verbatim>\<open>geo2wiki-osm.py\<close> is stated for any
  behaviour of the two packages.
\<close>

definition haversine_pkg :: "real \<times> real \<Rightarrow> json \<times> json \<Rightarrow> py_error + real" where
  "haversine_pkg point1 point2 =
     bindE (py_float (fst point2)) (\<lambda>lat2.
     bindE (py_float (snd point2)) (\<lambda>lng2.
       let lat1 = fst point1; lng1 = snd point1 in
       if lat1 < - 90 \<or> 90 < lat1 \<or> lng1 < - 180 \<or> 180 < lng1
          \<or> lat2 < - 90 \<or> 90 < lat2 \<or> lng2 < - 180 \<or> 180 < lng2
       then Inl ValueError
       else
         let lat = radians lat2 - radians lat1;
             lng = radians lng2 - radians lng1;
             d = (sin (lat * 0.5))\<^sup>2
                 + cos (radians lat1) * cos (radians lat2) * (sin (lng * 0.5))\<^sup>2
         in bindE (py_sqrt exact d) (\<lambda>s.
            if 1 < s then Inl ValueError else Inr (2 * (6371.0088 * 1000) * arcsin s))))"

text \<open>
  The centroid \<^verbatim>\<open>shapely\<close> (through GEOS) gives a polygon: the ring is closed if it is
  not, needs four coordinates then, and its centroid is the area-weighted mean of the
  triangles that the first vertex spans with each edge; a ring of area zero falls back to
  the length-weighted mean of its edges' midpoints, one of length zero to its point.
\<close>

definition tri_area2 :: "real \<times> real \<Rightarrow> real \<times> real \<Rightarrow> real \<times> real \<Rightarrow> real" where
  "tri_area2 b p q = (fst p - fst b) * (snd q - snd b) - (fst q - fst b) * (snd p - snd b)"

definition close_ring :: "(real \<times> real) list \<Rightarrow> (real \<times> real) list" where
  "close_ring cs = (if cs = [] \<or> hd cs = last cs then cs else cs @ [hd cs])"

definition edge_length :: "(real \<times> real) \<times> (real \<times> real) \<Rightarrow> real" where
  "edge_length e = sqrt ((fst (snd e) - fst (fst e))\<^sup>2 + (snd (snd e) - snd (fst e))\<^sup>2)"

definition shapely_centroid :: "(json \<times> json) list \<Rightarrow> py_error + real \<times> real" where
  "shapely_centroid cs =
     bindE (mapE (\<lambda>c. bindE (py_float (fst c)) (\<lambda>x. bindE (py_float (snd c)) (\<lambda>y. Inr (x, y)))) cs)
       (\<lambda>pts.
         let ring = close_ring pts in
         if length ring < 4 then Inl ValueError
         else
           let b = hd ring;
               edges = zip ring (tl ring);
               area2 = (\<Sum>e\<leftarrow>edges. tri_area2 b (fst e) (snd e));
               len = (\<Sum>e\<leftarrow>edges. edge_length e)
           in if area2 \<noteq> 0 then
                Inr ((\<Sum>e\<leftarrow>edges. tri_area2 b (fst e) (snd e) * (fst b + fst (fst e) + fst (snd e)))
                       / (3 * area2),
                     (\<Sum>e\<leftarrow>edges. tri_area2 b (fst e) (snd e) * (snd b + snd (fst e) + snd (snd e)))
                       / (3 * area2))
              else if len \<noteq> 0 then
                Inr ((\<Sum>e\<leftarrow>edges. edge_length e * ((fst (fst e) + fst (snd e)) / 2)) / len,
                     (\<Sum>e\<leftarrow>edges. edge_length e * ((snd (fst e) + snd (snd e)) / 2)) / len)
              else Inr b)"

definition packages :: libs where
  "packages = \<lparr>lib_haversine = haversine_pkg, lib_centroid = shapely_centroid\<rparr>"

text \<open>\<^verbatim>\<open>calculate_centroid\<close> of \<^verbatim>\<open>geo2wiki-osm.py\<close>.\<close>

definition calculate_centroid_v1 :: "libs \<Rightarrow> json \<Rightarrow> py_error + json \<times> json" where
  "calculate_centroid_v1 L geometry =
     (if \<not> py_truthy geometry then Inr (JNull, JNull)
      else bindE (py_iter geometry) (\<lambda>nodes.
           bindE (mapE (\<lambda>node. bindE (py_getitem node ''lon'') (\<lambda>lo.
                                 bindE (py_getitem node ''lat'') (\<lambda>la. Inr (lo, la)))) nodes)
             (\<lambda>coords.
           bindE (lib_centroid L coords) (\<lambda>centroid.
           Inr (JNum (snd centroid), JNum (fst centroid))))))"

section \<open>The radius-expansion controller\<close>

text \<open>The constants at the head of each script.\<close>

record params =
  center_lat :: real
  center_lon :: real
  initial_radius :: int
  max_radius :: int
  radius_increment :: int
  min_results :: int
  max_results :: int

definition params_v3 :: params where
  "params_v3 = \<lparr>center_lat = 38.89777476492068, center_lon = - 77.03654524519337,
     initial_radius = 500, max_radius = 10000, radius_increment = 500,
     min_results = 5, max_results = 20\<rparr>"

definition params_v1 :: params where
  "params_v1 = \<lparr>center_lat = 38.897685330838804, center_lon = - 77.03653317988284,
     initial_radius = 500, max_radius = 10000, radius_increment = 500,
     min_results = 5, max_results = 20\<rparr>"

text \<open>
  What the three services answer during a run: in iteration \<open>k\<close> of the loop (counted
  from 0) the geosearch request gets \<open>wiki_env k\<close>, the reverse-geocoding request
  \<open>admin_env k\<close>, and the successive Overpass requests \<open>overpass_env k 0\<close>,
  \<open>overpass_env k 1\<close>, ...; afterwards the \<open>i\<close>-th URL lookup of
  \<^verbatim>\<open>geo2wiki-osm_v3.py\<close> gets \<open>url_env i\<close>. And \<open>recursion_room\<close> is the number of
  nested calls of \<^verbatim>\<open>get_osm_nearby_features\<close> that the interpreter has room for.
\<close>

record env =
  wiki_env :: "nat \<Rightarrow> response"
  admin_env :: "nat \<Rightarrow> response"
  overpass_env :: "nat \<Rightarrow> nat \<Rightarrow> response"
  url_env :: "nat \<Rightarrow> response"
  recursion_room :: nat

text \<open>
  The variables of the loop. \<open>wiki_results\<close> is a Python list in
  \<^verbatim>\<open>geo2wiki-osm.py\<close> and any decoded value in \<^verbatim>\<open>geo2wiki-osm_v3.py\<close>;
  \<open>iterations\<close> counts the iterations completed, and selects the responses.
\<close>

record 'w loop_state =
  current_radius :: int
  wiki_results :: 'w
  osm_admin_data :: json
  osm_features_data :: "json list"
  iterations :: nat

text \<open>How the loop ends when it ends: by its condition or \<^verbatim>\<open>break\<close>, or by an exception
  in the iteration with the given index.\<close>

datatype 's loop_exit = Exited 's | Crashed py_error nat

definition initial_state_v3 :: "params \<Rightarrow> json loop_state" where
  "initial_state_v3 p = \<lparr>current_radius = initial_radius p, wiki_results = JArr [],
     osm_admin_data = JNull, osm_features_data = [], iterations = 0\<rparr>"

definition initial_state_v1 :: "params \<Rightarrow> json list loop_state" where
  "initial_state_v1 p = \<lparr>current_radius = initial_radius p, wiki_results = [],
     osm_admin_data = JNull, osm_features_data = [], iterations = 0\<rparr>"

text \<open>Both scripts: \<^verbatim>\<open>if not osm_admin_data: osm_admin_data = future_osm_admin.result()\<close>.
  The future's exception is raised by \<^verbatim>\<open>result()\<close> only.\<close>

definition keep_admin :: "json \<Rightarrow> py_error + json \<Rightarrow> py_error + json" where
  "keep_admin cached admin_result =
     (if \<not> py_truthy cached then admin_result else Inr cached)"

text \<open>Both scripts: \<^verbatim>\<open>if osm_features and "elements" in osm_features:
  osm_features_data.extend(osm_features["elements"])\<close>.\<close>

definition extend_features :: "json list \<Rightarrow> json \<Rightarrow> py_error + json list" where
  "extend_features collected osm_features =
     (if py_truthy osm_features then
        bindE (py_contains ''elements'' osm_features) (\<lambda>c.
        if c then
          bindE (py_getitem osm_features ''elements'') (\<lambda>els.
          bindE (py_iter els) (\<lambda>items. Inr (collected @ items)))
        else Inr collected)
      else Inr collected)"

subsection \<open>\<^verbatim>\<open>geo2wiki-osm_v3.py\<close>, lines 128 to 163\<close>

text \<open>The test \<^verbatim>\<open>wiki_data and "query" in wiki_data and wiki_data["query"]["geosearch"]\<close>.\<close>

definition has_geosearch :: "json \<Rightarrow> py_error + bool" where
  "has_geosearch wiki_data =
     (if \<not> py_truthy wiki_data then Inr False
      else bindE (py_contains ''query'' wiki_data) (\<lambda>c.
           if \<not> c then Inr False
           else bindE (py_getitem wiki_data ''query'') (\<lambda>q.
                bindE (py_getitem q ''geosearch'') (\<lambda>g. Inr (py_truthy g)))))"

text \<open>The body of the loop once the three futures are done, given their results in the
  order the script reads them.\<close>

definition merge_v3 ::
  "params \<Rightarrow> json loop_state \<Rightarrow> py_error + json \<Rightarrow> py_error + json \<Rightarrow> py_error + json
     \<Rightarrow> py_error + json loop_state" where
  "merge_v3 p st wiki_result admin_result features_result =
     bindE wiki_result (\<lambda>wiki_data.
     bindE (keep_admin (osm_admin_data st) admin_result) (\<lambda>admin.
     bindE features_result (\<lambda>osm_features.
     bindE (extend_features (osm_features_data st) osm_features) (\<lambda>feats.
     bindE (has_geosearch wiki_data) (\<lambda>found.
       if found then
         bindE (py_getitem wiki_data ''query'') (\<lambda>q.
         bindE (py_getitem q ''geosearch'') (\<lambda>results.
         bindE (py_len results) (\<lambda>n.
           Inr \<lparr>current_radius =
                  (if min_results p \<le> int n then current_radius st
                   else current_radius st + radius_increment p),
                wiki_results = results,
                osm_admin_data = admin,
                osm_features_data = feats,
                iterations = Suc (iterations st)\<rparr>)))
       else
         Inr \<lparr>current_radius = current_radius st + radius_increment p,
              wiki_results = wiki_results st,
              osm_admin_data = admin,
              osm_features_data = feats,
              iterations = Suc (iterations st)\<rparr>)))))"

text \<open>
  One iteration: the three calls run in a thread pool, and the \<^verbatim>\<open>with\<close> block is left
  only when all three have ended, each with a value or an exception.
\<close>

definition iteration_v3 :: "env \<Rightarrow> params \<Rightarrow> json loop_state \<Rightarrow> py_error + json loop_state" where
  "iteration_v3 E p st =
     merge_v3 p st
       (fst (get_wikipedia_geosearch_v3 (center_lat p) (center_lon p) (current_radius st)
               (max_results p) (wiki_env E (iterations st))))
       (fst (get_osm_administrative_info (center_lat p) (center_lon p)
               (admin_env E (iterations st))))
       (fst (get_osm_nearby_features (recursion_room E) (center_lat p) (center_lon p)
               (current_radius st) (overpass_env E (iterations st)) 0 []))"

partial_function (option) controller_loop_v3 ::
  "env \<Rightarrow> params \<Rightarrow> json loop_state \<Rightarrow> json loop_state loop_exit option" where
  "controller_loop_v3 E p st =
     (if current_radius st \<le> max_radius p then
        (case py_len (wiki_results st) of
           Inl e \<Rightarrow> Some (Crashed e (iterations st))
         | Inr n \<Rightarrow>
             if int n < min_results p then
               (case iteration_v3 E p st of
                  Inl e \<Rightarrow> Some (Crashed e (iterations st))
                | Inr st' \<Rightarrow> controller_loop_v3 E p st')
             else Some (Exited st))
      else Some (Exited st))"

subsection \<open>\<^verbatim>\<open>geo2wiki-osm.py\<close>, lines 100 to 120\<close>

text \<open>The body of the loop once the three futures are done; the flag says whether the
  body left the loop by \<^verbatim>\<open>break\<close>.\<close>

definition merge_v1 ::
  "params \<Rightarrow> json list loop_state \<Rightarrow> py_error + json list \<Rightarrow> py_error + json \<Rightarrow> py_error + json
     \<Rightarrow> py_error + json list loop_state \<times> bool" where
  "merge_v1 p st wiki_result admin_result features_result =
     bindE wiki_result (\<lambda>results.
     bindE (keep_admin (osm_admin_data st) admin_result) (\<lambda>admin.
     bindE features_result (\<lambda>osm_features.
     bindE (extend_features (osm_features_data st) osm_features) (\<lambda>feats.
       if results \<noteq> [] \<and> min_results p \<le> int (length results) then
         Inr (\<lparr>current_radius = current_radius st,
               wiki_results = results,
               osm_admin_data = admin,
               osm_features_data = feats,
               iterations = Suc (iterations st)\<rparr>, True)
       else
         Inr (\<lparr>current_radius = current_radius st + radius_increment p,
               wiki_results = results,
               osm_admin_data = admin,
               osm_features_data = feats,
               iterations = Suc (iterations st)\<rparr>, False)))))"

definition iteration_v1 ::
  "env \<Rightarrow> params \<Rightarrow> json list loop_state \<Rightarrow> py_error + json list loop_state \<times> bool" where
  "iteration_v1 E p st =
     merge_v1 p st
       (fst (get_wikipedia_geosearch_v1 (center_lat p) (center_lon p) (current_radius st)
               (max_results p) (wiki_env E (iterations st))))
       (fst (get_osm_administrative_info (center_lat p) (center_lon p)
               (admin_env E (iterations st))))
       (fst (get_osm_nearby_features (recursion_room E) (center_lat p) (center_lon p)
               (current_radius st) (overpass_env E (iterations st)) 0 []))"

partial_function (option) controller_loop_v1 ::
  "env \<Rightarrow> params \<Rightarrow> json list loop_state \<Rightarrow> json list loop_state loop_exit option" where
  "controller_loop_v1 E p st =
     (if current_radius st \<le> max_radius p \<and> int (length (wiki_results st)) < min_results p then
        (case iteration_v1 E p st of
           Inl e \<Rightarrow> Some (Crashed e (iterations st))
         | Inr (st', broke) \<Rightarrow>
             if broke then Some (Exited st') else controller_loop_v1 E p st')
      else Some (Exited st))"

section \<open>The report\<close>

text \<open>
  A row of \<^verbatim>\<open>csv_data\<close> is a list of six Python values. A URL that a script formats
  itself is kept as the data it is formatted from: the text of a float is not modelled.
\<close>

datatype url =
    ArticleUrl string
  | MapViewerUrl real real
  | ElementUrl json json

datatype cell = CStr string | CVal json | CFloat real | CInt int | CUrl url

type_synonym row = "cell list"

definition csv_header :: row where
  "csv_header = [CStr ''Source'', CStr ''Name'', CStr ''Latitude'', CStr ''Longitude'',
     CStr ''Distance (meters)'', CStr ''URL'']"

definition wikipedia_placeholder :: row where
  "wikipedia_placeholder =
     [CStr ''Wikipedia'', CStr ''No results found'', CStr [], CStr [], CStr [], CStr []]"

definition admin_placeholder :: row where
  "admin_placeholder =
     [CStr ''OSM'', CStr ''No administrative info found'', CStr [], CStr [], CStr [],
      CStr ''null'']"

definition features_placeholder :: row where
  "features_placeholder =
     [CStr ''OSM'', CStr ''No nearby features found'', CStr [], CStr [], CStr [],
      CStr ''null'']"

text \<open>
  Both scripts end with \<^verbatim>\<open>open(filename, mode="w", newline="", encoding="utf-8")\<close>,
  \<^verbatim>\<open>writer.writerow\<close> of the header and \<^verbatim>\<open>writer.writerows(csv_data)\<close>. The writer
  takes a string as it is and \<^verbatim>\<open>str\<close> of any other value, and the file encodes what
  it is given: a surrogate raises \<^verbatim>\<open>UnicodeEncodeError\<close>, and leaves a file cut short.
  A URL of \<^verbatim>\<open>geo2wiki-osm.py\<close> has been through \<^verbatim>\<open>quote\<close> and is ASCII. (The file
  system is taken to accept the file.)
\<close>

fun url_ok :: "url \<Rightarrow> bool" where
  "url_ok (ElementUrl ty ident) = (text_ok ty \<and> text_ok ident)"
| "url_ok _ = True"

fun cell_ok :: "cell \<Rightarrow> bool" where
  "cell_ok (CStr s) = encodable s"
| "cell_ok (CVal v) = text_ok v"
| "cell_ok (CUrl u) = url_ok u"
| "cell_ok _ = True"

definition write_csv :: "row list \<Rightarrow> py_error + row list" where
  "write_csv rows =
     (if list_all (list_all cell_ok) rows then Inr rows else Inl UnicodeEncodeError)"

fun filterE :: "('a \<Rightarrow> 'e + bool) \<Rightarrow> 'a list \<Rightarrow> 'e + 'a list" where
  "filterE f [] = Inr []"
| "filterE f (x # xs) =
     bindE (f x) (\<lambda>keep. bindE (filterE f xs) (\<lambda>ys. Inr (if keep then x # ys else ys)))"

subsection \<open>What both scripts share\<close>

definition admin_rows :: "params \<Rightarrow> json \<Rightarrow> py_error + row list" where
  "admin_rows p admin =
     (if py_truthy admin then
        bindE (py_getitem admin ''display_name'') (\<lambda>name.
        Inr [[CStr ''OSM'', CVal name, CFloat (center_lat p), CFloat (center_lon p), CInt 0,
              CUrl (MapViewerUrl (center_lat p) (center_lon p))]])
      else Inr [admin_placeholder])"

text \<open>The condition of \<^verbatim>\<open>filtered_osm_features\<close>:
  \<^verbatim>\<open>"tags" in element and element["tags"].get("name")\<close>.\<close>

definition has_name :: "json \<Rightarrow> py_error + bool" where
  "has_name element =
     bindE (py_contains ''tags'' element) (\<lambda>c.
     if c then
       bindE (py_getitem element ''tags'') (\<lambda>tags.
       bindE (py_get tags ''name'' JNull) (\<lambda>name. Inr (py_truthy name)))
     else Inr False)"

text \<open>
  The body of \<^verbatim>\<open>for element in filtered_osm_features\<close>, the same text in both scripts
  but for the two calls \<^verbatim>\<open>calculate_centroid\<close> and the distance, here \<open>centroid\<close> and
  \<open>distance\<close>. It gives the rows the element adds to \<^verbatim>\<open>csv_data\<close>: one or none.
\<close>

definition feature_rows ::
  "(json \<Rightarrow> py_error + json \<times> json) \<Rightarrow> (json \<Rightarrow> json \<Rightarrow> py_error + cell) \<Rightarrow> json
     \<Rightarrow> py_error + row list" where
  "feature_rows centroid distance element =
     bindE (py_getitem element ''tags'') (\<lambda>tags.
     bindE (py_get tags ''name'' (JStr ''Unnamed'')) (\<lambda>name.
     bindE (py_getitem element ''type'') (\<lambda>ty.
     bindE (if ty = JStr ''node'' then
              bindE (py_getitem element ''lat'') (\<lambda>la.
              bindE (py_getitem element ''lon'') (\<lambda>lo. Inr (la, lo)))
            else if ty = JStr ''way'' then
              bindE (py_getitem element ''geometry'') centroid
            else Inr (JNull, JNull)) (\<lambda>pos.
       if py_truthy (fst pos) \<and> py_truthy (snd pos) then
         bindE (distance (fst pos) (snd pos)) (\<lambda>d.
         bindE (py_getitem element ''type'') (\<lambda>ty'.
         bindE (py_getitem element ''id'') (\<lambda>ident.
         Inr [[CStr ''OSM'', CVal name, CVal (fst pos), CVal (snd pos), d,
               CUrl (ElementUrl ty' ident)]])))
       else Inr []))))"

definition osm_feature_rows ::
  "(json \<Rightarrow> py_error + json \<times> json) \<Rightarrow> (json \<Rightarrow> json \<Rightarrow> py_error + cell) \<Rightarrow> json list
     \<Rightarrow> py_error + row list" where
  "osm_feature_rows centroid distance collected =
     bindE (filterE has_name collected) (\<lambda>filtered_osm_features.
     if filtered_osm_features \<noteq> [] then
       bindE (mapE (feature_rows centroid distance) filtered_osm_features) (\<lambda>rs. Inr (concat rs))
     else Inr [features_placeholder])"

subsection \<open>\<^verbatim>\<open>geo2wiki-osm_v3.py\<close>, lines 166 to 233\<close>

definition distance_v3 :: "arith \<Rightarrow> params \<Rightarrow> json \<Rightarrow> json \<Rightarrow> py_error + cell" where
  "distance_v3 F p lat lon =
     bindE (haversine_distance F (center_lat p) (center_lon p) lat lon) (\<lambda>d. Inr (CInt d))"

definition wikipedia_row_v3 :: "arith \<Rightarrow> params \<Rightarrow> response \<Rightarrow> json \<Rightarrow> py_error + row" where
  "wikipedia_row_v3 F p url_response place =
     bindE (py_getitem place ''lat'') (\<lambda>la.
     bindE (py_getitem place ''lon'') (\<lambda>lo.
     bindE (distance_v3 F p la lo) (\<lambda>d.
     bindE (py_getitem place ''title'') (\<lambda>title.
     bindE (fst (get_wikipedia_url_v3 title url_response)) (\<lambda>u.
     Inr [CStr ''Wikipedia'', CVal title, CVal la, CVal lo, d, CVal u])))))"

definition wikipedia_rows_v3 ::
  "arith \<Rightarrow> params \<Rightarrow> (nat \<Rightarrow> response) \<Rightarrow> json \<Rightarrow> py_error + row list" where
  "wikipedia_rows_v3 F p url_responses results =
     bindE (py_len results) (\<lambda>n.
     if 1 \<le> n then
       bindE (py_slice_to results (max_results p)) (\<lambda>sl.
       bindE (py_iter sl) (\<lambda>places.
       mapE (\<lambda>ip. wikipedia_row_v3 F p (url_responses (fst ip)) (snd ip)) (enumerate 0 places)))
     else Inr [wikipedia_placeholder])"

definition build_report_v3 ::
  "arith \<Rightarrow> params \<Rightarrow> (nat \<Rightarrow> response) \<Rightarrow> json loop_state \<Rightarrow> py_error + row list" where
  "build_report_v3 F p url_responses st =
     bindE (wikipedia_rows_v3 F p url_responses (wiki_results st)) (\<lambda>w.
     bindE (admin_rows p (osm_admin_data st)) (\<lambda>a.
     bindE (osm_feature_rows calculate_centroid_v3 (distance_v3 F p) (osm_features_data st)) (\<lambda>f.
     Inr (csv_header # w @ a @ f))))"

text \<open>
  A run of \<^verbatim>\<open>geo2wiki-osm_v3.py\<close>: \<open>None\<close> when it never ends, an exception when one
  ends it, or the rows written to the CSV file, the header first. (The file's name, taken
  from the clock, is not modelled.)
\<close>

definition run_v3 :: "arith \<Rightarrow> env \<Rightarrow> params \<Rightarrow> (py_error + row list) option" where
  "run_v3 F E p =
     (case controller_loop_v3 E p (initial_state_v3 p) of
        None \<Rightarrow> None
      | Some (Crashed e k) \<Rightarrow> Some (Inl e)
      | Some (Exited st) \<Rightarrow> Some (bindE (build_report_v3 F p (url_env E) st) write_csv))"

subsection \<open>\<^verbatim>\<open>geo2wiki-osm.py\<close>, lines 123 to 179\<close>

text \<open>\<^verbatim>\<open>get_wikipedia_url\<close> of \<^verbatim>\<open>geo2wiki-osm.py\<close>: the URL is
  \<^verbatim>\<open>base_url + quote(title.replace(" ", "_"))\<close>; only a string has \<^verbatim>\<open>replace\<close>, and
  \<^verbatim>\<open>quote\<close> encodes the string first.\<close>

fun get_wikipedia_url_v1 :: "json \<Rightarrow> py_error + url" where
  "get_wikipedia_url_v1 (JStr title) =
     (if encodable title then Inr (ArticleUrl title) else Inl UnicodeEncodeError)"
| "get_wikipedia_url_v1 _ = Inl AttributeError"

definition distance_v1 :: "libs \<Rightarrow> params \<Rightarrow> json \<Rightarrow> json \<Rightarrow> py_error + cell" where
  "distance_v1 L p lat lon =
     bindE (lib_haversine L (center_lat p, center_lon p) (lat, lon)) (\<lambda>d. Inr (CFloat d))"

definition wikipedia_row_v1 :: "libs \<Rightarrow> params \<Rightarrow> json \<Rightarrow> py_error + row" where
  "wikipedia_row_v1 L p place =
     bindE (py_getitem place ''lat'') (\<lambda>la.
     bindE (py_getitem place ''lon'') (\<lambda>lo.
     bindE (distance_v1 L p la lo) (\<lambda>d.
     bindE (py_getitem place ''title'') (\<lambda>title.
     bindE (get_wikipedia_url_v1 title) (\<lambda>u.
     Inr [CStr ''Wikipedia'', CVal title, CVal la, CVal lo, d, CUrl u])))))"

definition wikipedia_rows_v1 :: "libs \<Rightarrow> params \<Rightarrow> json list \<Rightarrow> py_error + row list" where
  "wikipedia_rows_v1 L p results =
     (if results \<noteq> [] then mapE (wikipedia_row_v1 L p) (slice_to results (max_results p))
      else Inr [wikipedia_placeholder])"

definition build_report_v1 :: "libs \<Rightarrow> params \<Rightarrow> json list loop_state \<Rightarrow> py_error + row list" where
  "build_report_v1 L p st =
     bindE (wikipedia_rows_v1 L p (wiki_results st)) (\<lambda>w.
     bindE (admin_rows p (osm_admin_data st)) (\<lambda>a.
     bindE (osm_feature_rows (calculate_centroid_v1 L) (distance_v1 L p) (osm_features_data st)) (\<lambda>f.
     Inr (csv_header # w @ a @ f))))"

definition run_v1 :: "libs \<Rightarrow> env \<Rightarrow> params \<Rightarrow> (py_error + row list) option" where
  "run_v1 L E p =
     (case controller_loop_v1 E p (initial_state_v1 p) of
        None \<Rightarrow> None
      | Some (Crashed e k) \<Rightarrow> Some (Inl e)
      | Some (Exited st) \<Rightarrow> Some (bindE (build_report_v1 L p st) write_csv))"

section \<open>Notions the properties are stated with\<close>

text \<open>The requests a call sent and the pauses it made, in order.\<close>

fun requests_of :: "event list \<Rightarrow> request list" where
  "requests_of [] = []"
| "requests_of (HttpGet q # evs) = q # requests_of evs"
| "requests_of (e # evs) = requests_of evs"

fun pauses_of :: "event list \<Rightarrow> nat list" where
  "pauses_of [] = []"
| "pauses_of (Sleep s # evs) = s # pauses_of evs"
| "pauses_of (e # evs) = pauses_of evs"

text \<open>What \<^verbatim>\<open>get_osm_nearby_features\<close> does on a 429 before it calls itself.\<close>

definition retry_events :: "real \<Rightarrow> real \<Rightarrow> int \<Rightarrow> event list" where
  "retry_events lat lon radius =
     [HttpGet (OverpassQuery radius lat lon),
      Print [Text ''Rate limit hit, sleeping for 1 minute''],
      Sleep 60]"

subsection \<open>Sample answers of the three services\<close>

text \<open>Answers of the shape the services give, for the examples that follow the
  properties.\<close>

definition place :: "string \<Rightarrow> real \<Rightarrow> real \<Rightarrow> json" where
  "place title lat lon = JObj [(''title'', JStr title), (''lat'', JNum lat), (''lon'', JNum lon)]"

definition sample_places :: "json list" where
  "sample_places =
     [place ''White House'' 38.8977 (- 77.0365),
      place ''Oval Office'' 38.8974 (- 77.0374),
      place ''West Wing'' 38.8975 (- 77.0376),
      place ''East Wing'' 38.8976 (- 77.0355),
      place ''Blair House'' 38.8989 (- 77.0386)]"

definition geosearch_answer :: "json list \<Rightarrow> response" where
  "geosearch_answer places =
     Response 200 (Some (JObj [(''batchcomplete'', JStr []),
                               (''query'', JObj [(''geosearch'', JArr places)])]))"

definition admin_answer :: response where
  "admin_answer =
     Response 200 (Some (JObj [(''place_id'', JNum 1),
                               (''display_name'', JStr ''Washington, District of Columbia'')]))"

definition overpass_answer :: "json list \<Rightarrow> response" where
  "overpass_answer elements = Response 200 (Some (JObj [(''elements'', JArr elements)]))"

definition url_answer :: response where
  "url_answer =
     Response 200 (Some (JObj [(''query'', JObj [(''pages'', JObj [(''33057'',
       JObj [(''title'', JStr ''White House''),
             (''fullurl'', JStr ''https://en.wikipedia.org/wiki/White_House'')])])])]))"

text \<open>A run in which every request succeeds at once and the first geosearch finds five
  articles, and a run in which every request fails with a 404.\<close>

definition env_found :: env where
  "env_found =
     \<lparr>wiki_env = (\<lambda>k. geosearch_answer sample_places),
      admin_env = (\<lambda>k. admin_answer),
      overpass_env = (\<lambda>k n. overpass_answer []),
      url_env = (\<lambda>i. url_answer),
      recursion_room = 900\<rparr>"

definition env_404 :: env where
  "env_404 =
     \<lparr>wiki_env = (\<lambda>k. Response 404 None),
      admin_env = (\<lambda>k. Response 404 None),
      overpass_env = (\<lambda>k n. Response 404 None),
      url_env = (\<lambda>i. Response 404 None),
      recursion_room = 900\<rparr>"

subsection \<open>Counting iterations\<close>

text \<open>The iterations a loop that ended has started: those completed, and the one an
  exception ended.\<close>

fun iterations_run :: "'w loop_state loop_exit \<Rightarrow> nat" where
  "iterations_run (Exited st) = iterations st"
| "iterations_run (Crashed e k) = Suc k"

text \<open>The bound \<^verbatim>\<open>ceil((maxRadius - initialRadius) / increment) + 1\<close>.\<close>

definition iteration_bound :: "params \<Rightarrow> int" where
  "iteration_bound p =
     \<lceil>real_of_int (max_radius p - initial_radius p) / real_of_int (radius_increment p)\<rceil> + 1"

text \<open>The iterations still possible from a radius.\<close>

definition remaining :: "params \<Rightarrow> int \<Rightarrow> nat" where
  "remaining p radius =
     (if radius \<le> max_radius p then nat ((max_radius p - radius) div radius_increment p) + 1
      else 0)"

subsection \<open>The administrative-info results of a run\<close>

text \<open>What the reverse-geocoder client returns in iteration \<open>k\<close>.\<close>

definition admin_result :: "env \<Rightarrow> params \<Rightarrow> nat \<Rightarrow> py_error + json" where
  "admin_result E p k =
     fst (get_osm_administrative_info (center_lat p) (center_lon p) (admin_env E k))"

definition truthy_result :: "py_error + json \<Rightarrow> bool" where
  "truthy_result r = (case r of Inl e \<Rightarrow> False | Inr v \<Rightarrow> py_truthy v)"

text \<open>Iteration \<open>j\<close> is the first from iteration \<open>k\<close> on in which the client returns a
  non-empty result.\<close>

definition first_truthy_admin :: "env \<Rightarrow> params \<Rightarrow> nat \<Rightarrow> nat \<Rightarrow> bool" where
  "first_truthy_admin E p k j \<longleftrightarrow>
     truthy_result (admin_result E p j) \<and> (\<forall>i\<in>{k..<j}. \<not> truthy_result (admin_result E p i))"

text \<open>The cache of both scripts keeps \<open>a\<close> from iteration \<open>k\<close> up to iteration \<open>k'\<close>
  where it holds \<open>a'\<close>: a non-empty \<open>a\<close> is still there, and an empty one has been
  replaced by the first non-empty result, if one came.\<close>

definition admin_kept :: "env \<Rightarrow> params \<Rightarrow> nat \<Rightarrow> json \<Rightarrow> nat \<Rightarrow> json \<Rightarrow> bool" where
  "admin_kept E p k a k' a' \<longleftrightarrow>
     (py_truthy a \<longrightarrow> a' = a)
     \<and> (\<not> py_truthy a \<longrightarrow>
          (\<forall>j. k \<le> j \<and> j < k' \<and> first_truthy_admin E p k j \<longrightarrow> admin_result E p j = Inr a'))"

text \<open>A run in which the reverse geocoder fails first, then answers, then gives another
  answer, while the other two services fail.\<close>

definition env_admin :: env where
  "env_admin =
     \<lparr>wiki_env = (\<lambda>k. Response 404 None),
      admin_env = (\<lambda>k. if k = 0 then Response 500 None
                        else if k = 1 then admin_answer
                        else Response 200 (Some (JObj [(''display_name'', JStr ''Elsewhere'')]))),
      overpass_env = (\<lambda>k n. Response 404 None),
      url_env = (\<lambda>i. Response 404 None),
      recursion_room = 900\<rparr>"

subsection \<open>The haversine formula\<close>

text \<open>The haversine of the central angle between two points given in degrees, and the
  great-circle distance \<open>2 R arcsin (sqrt a)\<close> on a sphere of radius \<open>R\<close>.\<close>

definition haversine_a :: "real \<Rightarrow> real \<Rightarrow> real \<Rightarrow> real \<Rightarrow> real" where
  "haversine_a lat1 lon1 lat2 lon2 =
     (sin (radians (lat2 - lat1) / 2))\<^sup>2
     + cos (radians lat1) * cos (radians lat2) * (sin (radians (lon2 - lon1) / 2))\<^sup>2"

definition great_circle :: "real \<Rightarrow> real \<Rightarrow> real \<Rightarrow> real \<Rightarrow> real \<Rightarrow> real" where
  "great_circle R lat1 lon1 lat2 lon2 = 2 * R * arcsin (sqrt (haversine_a lat1 lon1 lat2 lon2))"

text \<open>What the operations \<open>F\<close> make of them: the term \<^verbatim>\<open>a\<close> and the product
  \<^verbatim>\<open>R * c\<close> of \<^verbatim>\<open>haversine_distance\<close>, with \<open>R = 6371000\<close>.\<close>

definition computed_a :: "arith \<Rightarrow> real \<Rightarrow> real \<Rightarrow> real \<Rightarrow> real \<Rightarrow> real" where
  "computed_a F lat1 lon1 lat2 lon2 =
     fl_add F (fl_sq F (fl_sin F (fl_div F (fl_radians F (fl_sub F lat2 lat1)) 2)))
       (fl_mul F (fl_mul F (fl_cos F (fl_radians F lat1)) (fl_cos F (fl_radians F lat2)))
                 (fl_sq F (fl_sin F (fl_div F (fl_radians F (fl_sub F lon2 lon1)) 2))))"

definition computed_distance :: "arith \<Rightarrow> real \<Rightarrow> real \<Rightarrow> real \<Rightarrow> real \<Rightarrow> real" where
  "computed_distance F lat1 lon1 lat2 lon2 =
     fl_mul F 6371000
       (fl_mul F 2 (fl_atan2 F (fl_sqrt F (computed_a F lat1 lon1 lat2 lon2))
                               (fl_sqrt F (fl_sub F 1 (computed_a F lat1 lon1 lat2 lon2)))))"

text \<open>
  What the distance of a point from itself rests on, true of IEEE arithmetic and of the
  C library: \<^verbatim>\<open>x - x\<close>, \<^verbatim>\<open>x * 0\<close>, \<^verbatim>\<open>0 / 2\<close>, \<^verbatim>\<open>0 ** 2\<close>, \<^verbatim>\<open>0 + 0\<close> and the
  functions \<^verbatim>\<open>radians\<close>, \<^verbatim>\<open>sin\<close> and \<^verbatim>\<open>sqrt\<close> at 0 are 0, \<^verbatim>\<open>1 - 0\<close> and
  \<^verbatim>\<open>sqrt(1)\<close> are 1, and \<^verbatim>\<open>atan2(0, 1)\<close> is 0.
\<close>

definition zero_laws :: "arith \<Rightarrow> bool" where
  "zero_laws F \<longleftrightarrow>
     (\<forall>x. fl_sub F x x = 0) \<and> (\<forall>x. fl_mul F x 0 = 0) \<and> fl_div F 0 2 = 0
     \<and> fl_sq F 0 = 0 \<and> fl_add F 0 0 = 0 \<and> fl_radians F 0 = 0 \<and> fl_sin F 0 = 0
     \<and> fl_sqrt F 0 = 0 \<and> fl_sub F 1 0 = 1 \<and> fl_sqrt F 1 = 1 \<and> fl_atan2 F 0 1 = 0"

subsection \<open>Sample elements\<close>

text \<open>The way of the specification's example, with vertices (lat 1, lon 1), (lat 1, lon 3)
  and (lat 3, lon 2).\<close>

definition triangle_geometry :: json where
  "triangle_geometry =
     JArr [JObj [(''lat'', JNum 1), (''lon'', JNum 1)],
           JObj [(''lat'', JNum 1), (''lon'', JNum 3)],
           JObj [(''lat'', JNum 3), (''lon'', JNum 2)]]"

definition triangle_way :: json where
  "triangle_way =
     JObj [(''type'', JStr ''way''), (''id'', JNum 42),
           (''tags'', JObj [(''building'', JStr ''yes''), (''name'', JStr ''Triangle'')]),
           (''geometry'', triangle_geometry)]"

text \<open>A named node on the prime meridian, and a named way without vertices.\<close>

definition meridian_node :: json where
  "meridian_node =
     JObj [(''type'', JStr ''node''), (''id'', JNum 7),
           (''lat'', JNum 51.4779), (''lon'', JNum 0),
           (''tags'', JObj [(''amenity'', JStr ''cafe''), (''name'', JStr ''Meridian Cafe'')])]"

definition empty_way :: json where
  "empty_way =
     JObj [(''type'', JStr ''way''), (''id'', JNum 8),
           (''tags'', JObj [(''building'', JStr ''yes''), (''name'', JStr ''Annex'')]),
           (''geometry'', JArr [])]"

text \<open>A run in which only the nearby-features service answers, each time with the one
  named way without vertices.\<close>

definition env_empty_way :: env where
  "env_empty_way =
     \<lparr>wiki_env = (\<lambda>k. Response 404 None),
      admin_env = (\<lambda>k. Response 404 None),
      overpass_env = (\<lambda>k n. overpass_answer [empty_way]),
      url_env = (\<lambda>i. Response 404 None),
      recursion_room = 900\<rparr>"





text \<open>A named node, and a run in which the geosearch fails and the nearby-features
  service returns that node at the first radius and nothing afterwards.\<close>

definition cafe_node :: json where
  "cafe_node =
     JObj [(''type'', JStr ''node''), (''id'', JNum 9),
           (''lat'', JNum 38.8981), (''lon'', JNum (- 77.0369)),
           (''tags'', JObj [(''amenity'', JStr ''cafe''), (''name'', JStr ''Corner Cafe'')])]"

definition env_node :: env where
  "env_node =
     \<lparr>wiki_env = (\<lambda>k. Response 404 None),
      admin_env = (\<lambda>k. admin_answer),
      overpass_env = (\<lambda>k n. overpass_answer (if k = 0 then [cafe_node] else [])),
      url_env = (\<lambda>i. Response 404 None),
      recursion_room = 900\<rparr>"




subsection \<open>Runs in which every request fails\<close>


text \<open>A run in which the nearby-features service answers every request with 429.\<close>

definition env_rate_limited :: env where
  "env_rate_limited =
     \<lparr>wiki_env = (\<lambda>k. geosearch_answer sample_places),
      admin_env = (\<lambda>k. admin_answer),
      overpass_env = (\<lambda>k n. Response 429 None),
      url_env = (\<lambda>i. url_answer),
      recursion_room = 900\<rparr>"

section \<open>Basic facts\<close>

lemma bindE_Inl [simp]: "bindE (Inl e) f = Inl e"
  by (simp add: bindE_def)

lemma bindE_Inr [simp]: "bindE (Inr x) f = f x"
  by (simp add: bindE_def)

lemma bindE_eq_Inr: "bindE m f = Inr y \<longleftrightarrow> (\<exists>x. m = Inr x \<and> f x = Inr y)"
  by (cases m) simp_all

lemma requests_of_append: "requests_of (xs @ ys) = requests_of xs @ requests_of ys"
  by (induction xs rule: requests_of.induct) simp_all

lemma pauses_of_append: "pauses_of (xs @ ys) = pauses_of xs @ pauses_of ys"
  by (induction xs rule: pauses_of.induct) simp_all

lemma requests_of_retries:
  "requests_of (concat (replicate m (retry_events lat lon radius)))
     = replicate m (OverpassQuery radius lat lon)"
  by (induction m) (simp_all add: retry_events_def)

lemma pauses_of_retries:
  "pauses_of (concat (replicate m (retry_events lat lon radius))) = replicate m 60"
  by (induction m) (simp_all add: retry_events_def)

lemma code_points_Nil [simp]: "code_points s = [] \<longleftrightarrow> s = []"
  by (cases s) simp_all

lemma code_points_nonempty: "g \<in> set (code_points s) \<Longrightarrow> g \<noteq> []"
proof (induction s rule: code_points.induct)
  case 1
  then show ?case by simp
next
  case (2 c cs)
  then show ?case by auto
qed

lemma set_slice_to: "set (slice_to xs n) \<subseteq> set xs"
  by (auto simp: slice_to_def dest: in_set_takeD)

lemma py_len_pos_truthy: "py_len g = Inr m \<Longrightarrow> 0 < m \<Longrightarrow> py_truthy g"
  by (cases g) auto

lemma getitem_truthy: "py_getitem d k = Inr v \<Longrightarrow> py_truthy d"
  by (cases d) (auto split: option.splits)

lemma getitem_contains: "py_getitem d k = Inr v \<Longrightarrow> py_contains k d = Inr True"
  by (cases d) (force split: option.splits dest!: map_of_SomeD)+

lemma has_geosearch_found:
  assumes "py_getitem wiki_data ''query'' = Inr q" "py_getitem q ''geosearch'' = Inr g"
  shows "has_geosearch wiki_data = Inr (py_truthy g)"
  using assms getitem_truthy [OF assms(1)] getitem_contains [OF assms(1)]
  by (simp add: has_geosearch_def)

section \<open>The nearby-features client and its retries\<close>

lemma retry_chain:
  "m \<le> room \<Longrightarrow> (\<forall>i<m. status_code (responses (n + i)) = 429) \<Longrightarrow>
   get_osm_nearby_features room lat lon radius responses n evs =
   get_osm_nearby_features (room - m) lat lon radius responses (n + m)
     (evs @ concat (replicate m (retry_events lat lon radius)))"
proof (induction m arbitrary: room n evs)
  case 0
  then show ?case by simp
next
  case (Suc m)
  have first: "status_code (responses n) = 429"
    using Suc.prems(2) by force
  have room: "room \<noteq> 0" "m \<le> room - 1" using Suc.prems(1) by simp_all
  have "\<forall>i<m. status_code (responses (Suc n + i)) = 429"
    using Suc.prems(2) by (metis Suc_less_eq add_Suc_shift)
  from Suc.IH [OF room(2) this] first room(1) show ?case
    by (subst get_osm_nearby_features.simps) (simp add: Let_def retry_events_def)
qed

lemma answered_call:
  assumes "status_code (responses n) \<noteq> 429" and "0 < room"
  shows "\<exists>res prints. get_osm_nearby_features room lat lon radius responses n evs
           = (res, evs @ HttpGet (OverpassQuery radius lat lon) # prints)
         \<and> requests_of prints = [] \<and> pauses_of prints = []"
  using assms by (subst get_osm_nearby_features.simps) (simp add: Let_def)

lemma no_room_left:
  assumes "\<forall>i<room. status_code (responses i) = 429"
  shows "fst (get_osm_nearby_features room lat lon radius responses 0 evs) = Inl RecursionError"
proof -
  have "get_osm_nearby_features room lat lon radius responses 0 evs
      = get_osm_nearby_features 0 lat lon radius responses room
          (evs @ concat (replicate room (retry_events lat lon radius)))"
    using retry_chain [of room room responses 0 lat lon radius evs] assms by simp
  then show ?thesis by (simp add: get_osm_nearby_features.simps)
qed

text \<open>
  C3. A 429 makes the nearby-features client print, pause 60 seconds and call itself,
  which sends the same request once more: after \<open>m\<close> answers 429 in a row and one other
  answer, the interpreter having room for the \<open>m + 1\<close> nested calls, the call has sent
  the same request \<open>m + 1\<close> times and paused \<open>m\<close> times for 60 seconds, each pause
  between two requests, and it returns. When the answers are 429 for as long as the
  interpreter has room, the call that finds none left raises \<^verbatim>\<open>RecursionError\<close>. No
  other answer makes the client send again, and the other clients send one request at
  most and never pause, whatever the answer.
\<close>

theorem rate_limit_retry:
  "((\<forall>i<m. status_code (responses i) = 429) \<and> status_code (responses m) \<noteq> 429 \<and> m < room
      \<longrightarrow> (\<exists>res evs prints.
            get_osm_nearby_features room lat lon radius responses 0 [] = (res, evs)
            \<and> evs = concat (replicate m (retry_events lat lon radius))
                     @ HttpGet (OverpassQuery radius lat lon) # prints
            \<and> requests_of prints = [] \<and> pauses_of prints = []
            \<and> requests_of evs = replicate (Suc m) (OverpassQuery radius lat lon)
            \<and> pauses_of evs = replicate m 60))
   \<and> ((\<forall>i<room. status_code (responses i) = 429)
      \<longrightarrow> fst (get_osm_nearby_features room lat lon radius responses 0 [])
            = Inl RecursionError)
   \<and> requests_of (snd (get_wikipedia_geosearch_v1 lat lon radius limit r))
        = [Geosearch lat lon radius limit]
   \<and> pauses_of (snd (get_wikipedia_geosearch_v1 lat lon radius limit r)) = []
   \<and> requests_of (snd (get_wikipedia_geosearch_v3 lat lon radius limit r))
        = [Geosearch lat lon radius limit]
   \<and> pauses_of (snd (get_wikipedia_geosearch_v3 lat lon radius limit r)) = []
   \<and> requests_of (snd (get_osm_administrative_info lat lon r)) = [ReverseGeocode lat lon]
   \<and> pauses_of (snd (get_osm_administrative_info lat lon r)) = []
   \<and> requests_of (snd (get_wikipedia_url_v3 title r))
        = (if param_ok title then [ArticleInfo title] else [])
   \<and> pauses_of (snd (get_wikipedia_url_v3 title r)) = []"
proof -
  have overpass: "\<exists>res evs prints.
            get_osm_nearby_features room lat lon radius responses 0 [] = (res, evs)
            \<and> evs = concat (replicate m (retry_events lat lon radius))
                     @ HttpGet (OverpassQuery radius lat lon) # prints
            \<and> requests_of prints = [] \<and> pauses_of prints = []
            \<and> requests_of evs = replicate (Suc m) (OverpassQuery radius lat lon)
            \<and> pauses_of evs = replicate m 60"
    if all: "\<forall>i<m. status_code (responses i) = 429"
      and last: "status_code (responses m) \<noteq> 429" and room: "m < room"
  proof -
    have chain: "get_osm_nearby_features room lat lon radius responses 0 []
        = get_osm_nearby_features (room - m) lat lon radius responses m
            (concat (replicate m (retry_events lat lon radius)))"
      using retry_chain [of m room responses 0 lat lon radius "[]"] all room by simp
    obtain res prints where answer:
      "get_osm_nearby_features (room - m) lat lon radius responses m
          (concat (replicate m (retry_events lat lon radius)))
        = (res, concat (replicate m (retry_events lat lon radius))
                     @ HttpGet (OverpassQuery radius lat lon) # prints)"
      "requests_of prints = []" "pauses_of prints = []"
      using answered_call [where responses = responses and n = m and room = "room - m",
          OF last] room
      by (metis zero_less_diff)
    show ?thesis
      using chain answer
      by (auto simp: requests_of_append pauses_of_append requests_of_retries pauses_of_retries
          replicate_append_same)
  qed
  have others:
    "requests_of (snd (get_wikipedia_geosearch_v1 lat lon radius limit r))
            = [Geosearch lat lon radius limit]"
    "pauses_of (snd (get_wikipedia_geosearch_v1 lat lon radius limit r)) = []"
    "requests_of (snd (get_wikipedia_geosearch_v3 lat lon radius limit r))
            = [Geosearch lat lon radius limit]"
    "pauses_of (snd (get_wikipedia_geosearch_v3 lat lon radius limit r)) = []"
    "requests_of (snd (get_osm_administrative_info lat lon r)) = [ReverseGeocode lat lon]"
    "pauses_of (snd (get_osm_administrative_info lat lon r)) = []"
    "requests_of (snd (get_wikipedia_url_v3 title r))
        = (if param_ok title then [ArticleInfo title] else [])"
    "pauses_of (snd (get_wikipedia_url_v3 title r)) = []"
    by (simp_all add: get_wikipedia_geosearch_v1_def get_wikipedia_geosearch_v3_def
        get_osm_administrative_info_def get_wikipedia_url_v3_def)
  from overpass no_room_left [of room responses lat lon radius "[]"] others
  show ?thesis by blast
qed

text \<open>One 429 and then a 200 with an empty element list, with room for 900 nested
  calls: two identical requests and one pause of 60 seconds between them. And with room
  for two calls only and nothing but 429: a \<^verbatim>\<open>RecursionError\<close>.\<close>

theorem rate_limit_retry_witness:
  "status_code (Response 429 None) = 429
   \<and> status_code (Response 200 (Some (JObj [(''elements'', JArr [])]))) \<noteq> 429
   \<and> (1::nat) < 900
   \<and> get_osm_nearby_features 900 38.9 (- 77) 500
        (\<lambda>i. if i = 0 then Response 429 None
             else Response 200 (Some (JObj [(''elements'', JArr [])]))) 0 []
      = (Inr (JObj [(''elements'', JArr [])]),
         [HttpGet (OverpassQuery 500 38.9 (- 77)),
          Print [Text ''Rate limit hit, sleeping for 1 minute''],
          Sleep 60,
          HttpGet (OverpassQuery 500 38.9 (- 77))])
   \<and> fst (get_osm_nearby_features 2 38.9 (- 77) 500 (\<lambda>i. Response 429 None) 0 [])
      = Inl RecursionError
   \<and> requests_of (snd (get_osm_administrative_info 38.9 (- 77) (Response 429 None)))
      = [ReverseGeocode 38.9 (- 77)]"
proof -
  let ?R = "\<lambda>i::nat. if i = 0 then Response 429 None
             else Response 200 (Some (JObj [(''elements'', JArr [])]))"
  have h: "(\<forall>i<1. status_code (?R i) = 429) \<and> status_code (?R 1) \<noteq> 429 \<and> (1::nat) < 900"
    by simp
  have call: "get_osm_nearby_features 900 38.9 (- 77) 500 ?R 0 []
      = (Inr (JObj [(''elements'', JArr [])]),
         [HttpGet (OverpassQuery 500 38.9 (- 77)),
          Print [Text ''Rate limit hit, sleeping for 1 minute''],
          Sleep 60,
          HttpGet (OverpassQuery 500 38.9 (- 77))])"
    by (subst get_osm_nearby_features.simps, subst get_osm_nearby_features.simps)
       (simp add: Let_def response_json_def)
  have k: "\<forall>i<2. status_code ((\<lambda>i::nat. Response 429 None) i) = 429" by simp
  note inst1 = rate_limit_retry [where m = 1 and room = 900 and responses = ?R
      and lat = "38.9" and lon = "- 77" and radius = 500 and r = "Response 429 None"]
  note inst2 = rate_limit_retry [where room = 2 and responses = "\<lambda>i. Response 429 None"
      and lat = "38.9" and lon = "- 77" and radius = 500]
  from inst2 k have ex: "fst (get_osm_nearby_features 2 38.9 (- 77) 500
      (\<lambda>i. Response 429 None) 0 []) = Inl RecursionError"
    by blast
  from inst1 h call have adm: "requests_of (snd (get_osm_administrative_info 38.9 (- 77)
      (Response 429 None))) = [ReverseGeocode 38.9 (- 77)]"
    by blast
  from call ex adm show ?thesis by simp
qed

section \<open>Error statuses\<close>

text \<open>
  C8. A client that receives a status other than 200 (and, for the nearby-features client,
  other than 429) raises nothing: it sends its one request, prints one line that ends with
  the status code, and returns the empty list (the geosearch client of
  \<^verbatim>\<open>geo2wiki-osm.py\<close>) or \<^verbatim>\<open>None\<close> (all the others). To receive a status the
  request must have been sent: the title can be encoded, and the interpreter has room
  for the call of the nearby-features client that sends it.
\<close>

theorem error_status_is_logged_not_raised:
  assumes "status_code r \<noteq> 200" and "status_code (responses n) \<noteq> 200"
    and "status_code (responses n) \<noteq> 429" and "param_ok title" and "0 < room"
  shows "get_wikipedia_geosearch_v1 lat lon radius limit r
           = (Inr [], [HttpGet (Geosearch lat lon radius limit),
                       Print [Text (''Error fetching Wikipedia geosearch data: ''
                                     @ str_int (status_code r))]])
       \<and> get_wikipedia_geosearch_v3 lat lon radius limit r
           = (Inr JNull, [HttpGet (Geosearch lat lon radius limit),
                          Print [Text (''Error fetching Wikipedia geosearch data: ''
                                        @ str_int (status_code r))]])
       \<and> get_osm_administrative_info lat lon r
           = (Inr JNull, [HttpGet (ReverseGeocode lat lon),
                          Print [Text (''Error fetching OSM data: '' @ str_int (status_code r))]])
       \<and> get_wikipedia_url_v3 title r
           = (Inr JNull, [HttpGet (ArticleInfo title),
                          Print [Text ''Error fetching URL for '', Str title,
                                 Text ('': '' @ str_int (status_code r))]])
       \<and> get_osm_nearby_features room lat lon radius responses n evs
           = (Inr JNull,
              evs @ [HttpGet (OverpassQuery radius lat lon),
                     Print [Text (''Error fetching OSM features: ''
                                   @ str_int (status_code (responses n)))]])"
proof -
  have "get_osm_nearby_features room lat lon radius responses n evs
           = (Inr JNull,
              evs @ [HttpGet (OverpassQuery radius lat lon),
                     Print [Text (''Error fetching OSM features: ''
                                   @ str_int (status_code (responses n)))]])"
    using assms(2,3,5) by (subst get_osm_nearby_features.simps) (simp add: Let_def)
  with assms(1,4) show ?thesis
    by (simp add: get_wikipedia_geosearch_v1_def get_wikipedia_geosearch_v3_def
        get_osm_administrative_info_def get_wikipedia_url_v3_def)
qed

text \<open>A 404 and a 503, near the coordinates and at the first radius of the scripts.\<close>

theorem error_status_is_logged_not_raised_witness:
  "status_code (Response 404 None) \<noteq> 200
   \<and> status_code (Response 503 None) \<noteq> 200 \<and> status_code (Response 503 None) \<noteq> 429
   \<and> param_ok (JStr ''White House'') \<and> (0::nat) < 900
   \<and> get_wikipedia_geosearch_v1 38.9 (- 77) 500 20 (Response 404 None)
       = (Inr [], [HttpGet (Geosearch 38.9 (- 77) 500 20),
                   Print [Text ''Error fetching Wikipedia geosearch data: 404'']])
   \<and> get_wikipedia_geosearch_v3 38.9 (- 77) 500 20 (Response 404 None)
       = (Inr JNull, [HttpGet (Geosearch 38.9 (- 77) 500 20),
                      Print [Text ''Error fetching Wikipedia geosearch data: 404'']])
   \<and> get_osm_administrative_info 38.9 (- 77) (Response 404 None)
       = (Inr JNull, [HttpGet (ReverseGeocode 38.9 (- 77)),
                      Print [Text ''Error fetching OSM data: 404'']])
   \<and> get_wikipedia_url_v3 (JStr ''White House'') (Response 404 None)
       = (Inr JNull, [HttpGet (ArticleInfo (JStr ''White House'')),
                      Print [Text ''Error fetching URL for '', Str (JStr ''White House''),
                             Text '': 404'']])
   \<and> get_osm_nearby_features 900 38.9 (- 77) 500 (\<lambda>i. Response 503 None) 0 []
       = (Inr JNull, [HttpGet (OverpassQuery 500 38.9 (- 77)),
                      Print [Text ''Error fetching OSM features: 503'']])"
  using error_status_is_logged_not_raised [where r = "Response 404 None"
      and responses = "\<lambda>i. Response 503 None" and n = 0 and lat = "38.9" and lon = "- 77"
      and radius = 500 and limit = 20 and title = "JStr ''White House''" and evs = "[]"
      and room = 900]
  by (simp add: str_int_def str_nat.simps)

section \<open>The controller stops when enough results are found\<close>

lemma stop_v3:
  assumes guard: "current_radius st \<le> max_radius p" "py_len (wiki_results st) = Inr n"
      "int n < min_results p"
    and client: "fst (get_wikipedia_geosearch_v3 (center_lat p) (center_lon p) (current_radius st)
             (max_results p) (wiki_env E (iterations st))) = Inr wiki_data"
    and results: "py_getitem wiki_data ''query'' = Inr q" "py_getitem q ''geosearch'' = Inr g"
      "py_len g = Inr m" "min_results p \<le> int m"
  shows "(\<exists>e. iteration_v3 E p st = Inl e
            \<and> controller_loop_v3 E p st = Some (Crashed e (iterations st)))
       \<or> (\<exists>st'. iteration_v3 E p st = Inr st'
            \<and> controller_loop_v3 E p st = Some (Exited st')
            \<and> current_radius st' = current_radius st
            \<and> wiki_results st' = g \<and> iterations st' = Suc (iterations st))"
proof (cases "iteration_v3 E p st")
  case (Inl e)
  then have "controller_loop_v3 E p st = Some (Crashed e (iterations st))"
    using guard by (subst controller_loop_v3.simps) simp
  with Inl show ?thesis by simp
next
  case (Inr st')
  have "0 < m" using guard(3) results(4) by linarith
  then have found: "has_geosearch wiki_data = Inr True"
    using has_geosearch_found [OF results(1,2)] py_len_pos_truthy [OF results(3)] by simp
  from Inr have
    merged: "merge_v3 p st (Inr wiki_data)
      (fst (get_osm_administrative_info (center_lat p) (center_lon p) (admin_env E (iterations st))))
      (fst (get_osm_nearby_features (recursion_room E) (center_lat p) (center_lon p)
              (current_radius st) (overpass_env E (iterations st)) 0 [])) = Inr st'"
    by (simp add: iteration_v3_def client)
  then have st': "current_radius st' = current_radius st" "wiki_results st' = g"
      "iterations st' = Suc (iterations st)"
    using found results by (auto simp: merge_v3_def bindE_eq_Inr)
  have "controller_loop_v3 E p st = controller_loop_v3 E p st'"
    using guard Inr by (subst controller_loop_v3.simps) simp
  also have "\<dots> = Some (Exited st')"
    using guard(1) results(3,4) st' by (subst controller_loop_v3.simps) simp
  finally show ?thesis using st' Inr by simp
qed

lemma stop_v1:
  assumes guard: "current_radius st \<le> max_radius p"
      "int (length (wiki_results st)) < min_results p"
    and client: "fst (get_wikipedia_geosearch_v1 (center_lat p) (center_lon p) (current_radius st)
             (max_results p) (wiki_env E (iterations st))) = Inr results"
    and enough: "min_results p \<le> int (length results)"
  shows "(\<exists>e. iteration_v1 E p st = Inl e
            \<and> controller_loop_v1 E p st = Some (Crashed e (iterations st)))
       \<or> (\<exists>st'. iteration_v1 E p st = Inr (st', True)
            \<and> controller_loop_v1 E p st = Some (Exited st')
            \<and> current_radius st' = current_radius st
            \<and> wiki_results st' = results \<and> iterations st' = Suc (iterations st))"
proof (cases "iteration_v1 E p st")
  case (Inl e)
  then have "controller_loop_v1 E p st = Some (Crashed e (iterations st))"
    using guard by (subst controller_loop_v1.simps) simp
  with Inl show ?thesis by simp
next
  case (Inr sb)
  obtain st' broke where sb: "sb = (st', broke)" by (cases sb)
  have ne: "results \<noteq> []" using guard(2) enough by auto
  from Inr sb have
    merged: "merge_v1 p st (Inr results)
      (fst (get_osm_administrative_info (center_lat p) (center_lon p) (admin_env E (iterations st))))
      (fst (get_osm_nearby_features (recursion_room E) (center_lat p) (center_lon p)
              (current_radius st) (overpass_env E (iterations st)) 0 [])) = Inr (st', broke)"
    by (simp add: iteration_v1_def client)
  then have st': "broke" "current_radius st' = current_radius st" "wiki_results st' = results"
      "iterations st' = Suc (iterations st)"
    using ne enough by (auto simp: merge_v1_def bindE_eq_Inr)
  have "controller_loop_v1 E p st = Some (Exited st')"
    using guard Inr sb st'(1) by (subst controller_loop_v1.simps) simp
  then show ?thesis using st' Inr sb by simp
qed

text \<open>
  C1. In both scripts and in every run: when the loop starts an iteration (its condition
  holds in state \<open>st\<close>) and the geosearch client returns in that iteration at least
  \<open>min_results\<close> results, the loop ends with that iteration. Either one of the other two
  calls, or the merge of their results, raises an exception, which ends the loop in that
  iteration; or the loop is left after it with the radius the iteration used and with
  those results.
\<close>

theorem stop_when_enough_results:
  "(current_radius st \<le> max_radius p \<and> py_len (wiki_results st) = Inr n
      \<and> int n < min_results p
      \<and> fst (get_wikipedia_geosearch_v3 (center_lat p) (center_lon p) (current_radius st)
               (max_results p) (wiki_env E (iterations st))) = Inr wiki_data
      \<and> py_getitem wiki_data ''query'' = Inr q \<and> py_getitem q ''geosearch'' = Inr g
      \<and> py_len g = Inr m \<and> min_results p \<le> int m
    \<longrightarrow> (\<exists>e. iteration_v3 E p st = Inl e
            \<and> controller_loop_v3 E p st = Some (Crashed e (iterations st)))
        \<or> (\<exists>st'. iteration_v3 E p st = Inr st'
            \<and> controller_loop_v3 E p st = Some (Exited st')
            \<and> current_radius st' = current_radius st \<and> wiki_results st' = g
            \<and> iterations st' = Suc (iterations st)))
   \<and> (current_radius s \<le> max_radius p \<and> int (length (wiki_results s)) < min_results p
      \<and> fst (get_wikipedia_geosearch_v1 (center_lat p) (center_lon p) (current_radius s)
               (max_results p) (wiki_env E (iterations s))) = Inr results
      \<and> min_results p \<le> int (length results)
    \<longrightarrow> (\<exists>e. iteration_v1 E p s = Inl e
            \<and> controller_loop_v1 E p s = Some (Crashed e (iterations s)))
        \<or> (\<exists>s'. iteration_v1 E p s = Inr (s', True)
            \<and> controller_loop_v1 E p s = Some (Exited s')
            \<and> current_radius s' = current_radius s \<and> wiki_results s' = results
            \<and> iterations s' = Suc (iterations s)))"
  using stop_v3 [of st p n E wiki_data q g m] stop_v1 [of s p E results]
  by blast

lemmas loop_eval =
  iteration_v3_def merge_v3_def get_wikipedia_geosearch_v3_def get_osm_administrative_info_def
  keep_admin_def extend_features_def has_geosearch_def initial_state_v3_def params_v3_def
  iteration_v1_def merge_v1_def get_wikipedia_geosearch_v1_def initial_state_v1_def params_v1_def
  response_json_def Let_def get_osm_nearby_features.simps

lemmas sample_eval =
  env_found_def env_404_def geosearch_answer_def admin_answer_def overpass_answer_def
  url_answer_def sample_places_def place_def

text \<open>With the constants of the scripts and five articles found at 500 metres, the loop
  ends after its first iteration, at 500 metres; and when the nearby-features service
  answers nothing but 429, it ends in that iteration with a \<^verbatim>\<open>RecursionError\<close>.\<close>

theorem stop_when_enough_results_witness:
  "controller_loop_v3 env_found params_v3 (initial_state_v3 params_v3)
     = Some (Exited \<lparr>current_radius = 500, wiki_results = JArr sample_places,
          osm_admin_data = JObj [(''place_id'', JNum 1),
                                 (''display_name'', JStr ''Washington, District of Columbia'')],
          osm_features_data = [], iterations = 1\<rparr>)
   \<and> controller_loop_v1 env_found params_v1 (initial_state_v1 params_v1)
     = Some (Exited \<lparr>current_radius = 500, wiki_results = sample_places,
          osm_admin_data = JObj [(''place_id'', JNum 1),
                                 (''display_name'', JStr ''Washington, District of Columbia'')],
          osm_features_data = [], iterations = 1\<rparr>)
   \<and> controller_loop_v3 env_rate_limited params_v3 (initial_state_v3 params_v3)
     = Some (Crashed RecursionError 0)
   \<and> controller_loop_v1 env_rate_limited params_v1 (initial_state_v1 params_v1)
     = Some (Crashed RecursionError 0)"
proof -
  let ?admin = "JObj [(''place_id'', JNum 1),
                      (''display_name'', JStr ''Washington, District of Columbia'')]"
  let ?st3 = "\<lparr>current_radius = 500, wiki_results = JArr sample_places,
          osm_admin_data = ?admin, osm_features_data = [], iterations = 1\<rparr>"
  let ?st1 = "\<lparr>current_radius = 500, wiki_results = sample_places,
          osm_admin_data = ?admin, osm_features_data = [], iterations = 1\<rparr>"
  let ?data = "JObj [(''batchcomplete'', JStr []),
                     (''query'', JObj [(''geosearch'', JArr sample_places)])]"
  let ?q = "JObj [(''geosearch'', JArr sample_places)]"
  have it3: "iteration_v3 env_found params_v3 (initial_state_v3 params_v3) = Inr ?st3"
    by (simp add: loop_eval sample_eval)
  have it1: "iteration_v1 env_found params_v1 (initial_state_v1 params_v1) = Inr (?st1, True)"
    by (simp add: loop_eval sample_eval)
  have c3: "fst (get_wikipedia_geosearch_v3 (center_lat params_v3) (center_lon params_v3)
        (current_radius (initial_state_v3 params_v3)) (max_results params_v3)
        (wiki_env E (iterations (initial_state_v3 params_v3)))) = Inr ?data"
    if "wiki_env E = (\<lambda>k. geosearch_answer sample_places)" for E
    using that by (simp add: loop_eval geosearch_answer_def)
  have c1: "fst (get_wikipedia_geosearch_v1 (center_lat params_v1) (center_lon params_v1)
        (current_radius (initial_state_v1 params_v1)) (max_results params_v1)
        (wiki_env E (iterations (initial_state_v1 params_v1)))) = Inr sample_places"
    if "wiki_env E = (\<lambda>k. geosearch_answer sample_places)" for E
    using that by (simp add: loop_eval sample_eval)
  have wf: "wiki_env env_found = (\<lambda>k. geosearch_answer sample_places)"
    by (simp add: env_found_def)
  have wr: "wiki_env env_rate_limited = (\<lambda>k. geosearch_answer sample_places)"
    by (simp add: env_rate_limited_def)
  have g3: "current_radius (initial_state_v3 params_v3) \<le> max_radius params_v3
      \<and> py_len (wiki_results (initial_state_v3 params_v3)) = Inr 0
      \<and> int 0 < min_results params_v3
      \<and> py_getitem ?data ''query'' = Inr ?q
      \<and> py_getitem ?q ''geosearch'' = Inr (JArr sample_places)
      \<and> py_len (JArr sample_places) = Inr 5 \<and> min_results params_v3 \<le> int 5"
    by (simp add: initial_state_v3_def params_v3_def sample_places_def)
  have g1: "current_radius (initial_state_v1 params_v1) \<le> max_radius params_v1
      \<and> int (length (wiki_results (initial_state_v1 params_v1))) < min_results params_v1
      \<and> min_results params_v1 \<le> int (length sample_places)"
    by (simp add: initial_state_v1_def params_v1_def sample_places_def)
  have over: "fst (get_osm_nearby_features 900 lat lon radius (\<lambda>n. Response 429 None) 0 [])
      = Inl RecursionError" for lat lon radius
    by (rule no_room_left) simp
  have x3: "iteration_v3 env_rate_limited params_v3 (initial_state_v3 params_v3)
      = Inl RecursionError"
    by (simp add: iteration_v3_def over merge_v3_def get_wikipedia_geosearch_v3_def
        get_osm_administrative_info_def keep_admin_def response_json_def
        env_rate_limited_def geosearch_answer_def admin_answer_def initial_state_v3_def)
  have x1: "iteration_v1 env_rate_limited params_v1 (initial_state_v1 params_v1)
      = Inl RecursionError"
    by (simp add: iteration_v1_def over merge_v1_def get_wikipedia_geosearch_v1_def
        get_osm_administrative_info_def keep_admin_def response_json_def
        env_rate_limited_def geosearch_answer_def admin_answer_def initial_state_v1_def
        sample_places_def place_def)
  from stop_when_enough_results [where st = "initial_state_v3 params_v3" and p = params_v3
      and n = 0 and E = env_found and wiki_data = ?data and q = ?q
      and g = "JArr sample_places" and m = 5, THEN conjunct1] it3 c3 [OF wf] g3
  have r3: "controller_loop_v3 env_found params_v3 (initial_state_v3 params_v3)
      = Some (Exited ?st3)"
    by auto
  from stop_when_enough_results [where s = "initial_state_v1 params_v1" and p = params_v1
      and E = env_found and results = sample_places, THEN conjunct2] it1 c1 [OF wf] g1
  have r1: "controller_loop_v1 env_found params_v1 (initial_state_v1 params_v1)
      = Some (Exited ?st1)"
    by auto
  from stop_when_enough_results [where st = "initial_state_v3 params_v3" and p = params_v3
      and n = 0 and E = env_rate_limited and wiki_data = ?data and q = ?q
      and g = "JArr sample_places" and m = 5, THEN conjunct1] x3 c3 [OF wr] g3
  have q3: "controller_loop_v3 env_rate_limited params_v3 (initial_state_v3 params_v3)
      = Some (Crashed RecursionError 0)"
    by (auto simp: initial_state_v3_def)
  from stop_when_enough_results [where s = "initial_state_v1 params_v1" and p = params_v1
      and E = env_rate_limited and results = sample_places, THEN conjunct2] x1 c1 [OF wr] g1
  have q1: "controller_loop_v1 env_rate_limited params_v1 (initial_state_v1 params_v1)
      = Some (Crashed RecursionError 0)"
    by (auto simp: initial_state_v1_def)
  from r3 r1 q3 q1 show ?thesis by simp
qed

section \<open>Termination of the controller\<close>

lemma merge_v3_step:
  assumes "merge_v3 p st w a f = Inr st'" and "py_len (wiki_results st) = Inr n"
  shows "iterations st' = Suc (iterations st)
       \<and> (\<exists>n'. py_len (wiki_results st') = Inr n'
            \<and> (current_radius st' = current_radius st + radius_increment p
               \<or> current_radius st' = current_radius st \<and> min_results p \<le> int n'))"
  using assms by (auto simp: merge_v3_def bindE_eq_Inr split: if_splits)

lemma merge_v1_step:
  assumes "merge_v1 p st w a f = Inr (st', broke)"
  shows "iterations st' = Suc (iterations st)
       \<and> (if broke then current_radius st' = current_radius st
           else current_radius st' = current_radius st + radius_increment p)"
  using assms by (auto simp: merge_v1_def bindE_eq_Inr split: if_splits)

lemma remaining_step:
  assumes "0 < radius_increment p" "radius \<le> max_radius p"
  shows "Suc (remaining p (radius + radius_increment p)) \<le> remaining p radius"
proof (cases "radius + radius_increment p \<le> max_radius p")
  case True
  have "(max_radius p - radius) div radius_increment p
      = (max_radius p - (radius + radius_increment p)) div radius_increment p + 1"
  proof -
    have "max_radius p - radius
        = (max_radius p - (radius + radius_increment p)) + radius_increment p" by simp
    then show ?thesis using assms(1) by (metis div_add_self2 less_irrefl)
  qed
  moreover have "0 \<le> (max_radius p - (radius + radius_increment p)) div radius_increment p"
    using True assms(1) by (simp add: pos_imp_zdiv_nonneg_iff)
  ultimately show ?thesis using True assms(2) by (simp add: remaining_def)
next
  case False
  then show ?thesis using assms by (simp add: remaining_def)
qed

lemma remaining_pos: "radius \<le> max_radius p \<Longrightarrow> 0 < remaining p radius"
  by (simp add: remaining_def)

lemma loop_v3_terminates:
  assumes inc: "0 < radius_increment p"
  shows "py_len (wiki_results st) = Inr n \<Longrightarrow>
         \<exists>r. controller_loop_v3 E p st = Some r
            \<and> iterations_run r \<le> iterations st + remaining p (current_radius st)"
proof (induction "remaining p (current_radius st)" arbitrary: st n rule: less_induct)
  case less
  show ?case
  proof (cases "current_radius st \<le> max_radius p \<and> int n < min_results p")
    case False
    then have "controller_loop_v3 E p st = Some (Exited st)"
      using less.prems by (subst controller_loop_v3.simps) auto
    then show ?thesis by simp
  next
    case True
    obtain x where x: "iteration_v3 E p st = x" by simp
    show ?thesis
    proof (cases x)
      case (Inl e)
      then have "controller_loop_v3 E p st = Some (Crashed e (iterations st))"
        using True less.prems x by (subst controller_loop_v3.simps) simp
      then show ?thesis using remaining_pos [of "current_radius st" p] True by simp
    next
      case (Inr st')
      then have unfold: "controller_loop_v3 E p st = controller_loop_v3 E p st'"
        using True less.prems x by (subst controller_loop_v3.simps) simp
      from x Inr obtain w a f where "merge_v3 p st w a f = Inr st'"
        by (auto simp: iteration_v3_def)
      from merge_v3_step [OF this less.prems] obtain n' where
        it: "iterations st' = Suc (iterations st)" and len': "py_len (wiki_results st') = Inr n'"
        and step: "current_radius st' = current_radius st + radius_increment p
               \<or> current_radius st' = current_radius st \<and> min_results p \<le> int n'"
        by blast
      from step show ?thesis
      proof
        assume r: "current_radius st' = current_radius st + radius_increment p"
        have dec: "Suc (remaining p (current_radius st')) \<le> remaining p (current_radius st)"
          using remaining_step [OF inc] True r by simp
        then have "remaining p (current_radius st') < remaining p (current_radius st)" by simp
        from less.hyps [OF this len'] obtain r' where
          "controller_loop_v3 E p st' = Some r'"
          "iterations_run r' \<le> iterations st' + remaining p (current_radius st')"
          by blast
        then show ?thesis using unfold it dec by auto
      next
        assume "current_radius st' = current_radius st \<and> min_results p \<le> int n'"
        then have "controller_loop_v3 E p st' = Some (Exited st')"
          using len' by (subst controller_loop_v3.simps) simp
        then show ?thesis
          using unfold it remaining_pos [of "current_radius st" p] True by simp
      qed
    qed
  qed
qed

lemma loop_v1_terminates:
  assumes inc: "0 < radius_increment p"
  shows "\<exists>r. controller_loop_v1 E p st = Some r
            \<and> iterations_run r \<le> iterations st + remaining p (current_radius st)"
proof (induction "remaining p (current_radius st)" arbitrary: st rule: less_induct)
  case less
  show ?case
  proof (cases "current_radius st \<le> max_radius p
                \<and> int (length (wiki_results st)) < min_results p")
    case False
    then have "controller_loop_v1 E p st = Some (Exited st)"
      by (subst controller_loop_v1.simps) auto
    then show ?thesis by simp
  next
    case True
    obtain x where x: "iteration_v1 E p st = x" by simp
    show ?thesis
    proof (cases x)
      case (Inl e)
      then have "controller_loop_v1 E p st = Some (Crashed e (iterations st))"
        using True x by (subst controller_loop_v1.simps) simp
      then show ?thesis using remaining_pos [of "current_radius st" p] True by simp
    next
      case (Inr sb)
      obtain st' broke where sb: "sb = (st', broke)" by (cases sb)
      from x Inr sb obtain w a f where "merge_v1 p st w a f = Inr (st', broke)"
        by (auto simp: iteration_v1_def)
      note step = merge_v1_step [OF this]
      show ?thesis
      proof (cases broke)
        case True
        then have "controller_loop_v1 E p st = Some (Exited st')"
          using \<open>current_radius st \<le> max_radius p
                \<and> int (length (wiki_results st)) < min_results p\<close> x Inr sb
          by (subst controller_loop_v1.simps) simp
        then show ?thesis
          using step remaining_pos [of "current_radius st" p]
            \<open>current_radius st \<le> max_radius p
                \<and> int (length (wiki_results st)) < min_results p\<close> by simp
      next
        case False
        then have unfold: "controller_loop_v1 E p st = controller_loop_v1 E p st'"
          using \<open>current_radius st \<le> max_radius p
                \<and> int (length (wiki_results st)) < min_results p\<close> x Inr sb
          by (subst controller_loop_v1.simps) simp
        have r: "current_radius st' = current_radius st + radius_increment p"
          using step False by simp
        have dec: "Suc (remaining p (current_radius st')) \<le> remaining p (current_radius st)"
          using remaining_step [OF inc] \<open>current_radius st \<le> max_radius p
                \<and> int (length (wiki_results st)) < min_results p\<close> r by simp
        then have "remaining p (current_radius st') < remaining p (current_radius st)" by simp
        from less.hyps [OF this] obtain r' where
          "controller_loop_v1 E p st' = Some r'"
          "iterations_run r' \<le> iterations st' + remaining p (current_radius st')"
          by blast
        then show ?thesis using unfold step dec by auto
      qed
    qed
  qed
qed

lemma remaining_le_bound:
  assumes "0 < radius_increment p"
  shows "int (remaining p (initial_radius p)) \<le> max 0 (iteration_bound p)"
proof (cases "initial_radius p \<le> max_radius p")
  case True
  have "(max_radius p - initial_radius p) div radius_increment p
      = \<lfloor>real_of_int (max_radius p - initial_radius p) / real_of_int (radius_increment p)\<rfloor>"
    by (simp only: floor_divide_of_int_eq)
  also have "\<dots> \<le> \<lceil>real_of_int (max_radius p - initial_radius p) / real_of_int (radius_increment p)\<rceil>"
    by (rule floor_le_ceiling)
  finally have "(max_radius p - initial_radius p) div radius_increment p + 1 \<le> iteration_bound p"
    by (simp add: iteration_bound_def)
  moreover have "0 \<le> (max_radius p - initial_radius p) div radius_increment p"
    using True assms by (simp add: pos_imp_zdiv_nonneg_iff)
  ultimately show ?thesis using True by (simp add: remaining_def)
next
  case False
  then show ?thesis by (simp add: remaining_def)
qed

lemma bound_pos:
  assumes "0 < radius_increment p" "initial_radius p \<le> max_radius p"
  shows "1 \<le> iteration_bound p"
proof -
  have "0 \<le> real_of_int (max_radius p - initial_radius p) / real_of_int (radius_increment p)"
    using assms by simp
  then have "\<lceil>0::real\<rceil>
      \<le> \<lceil>real_of_int (max_radius p - initial_radius p) / real_of_int (radius_increment p)\<rceil>"
    by (rule ceiling_mono)
  then show ?thesis by (simp add: iteration_bound_def)
qed

text \<open>
  C2, as amended. For every centre, all bounds with a positive increment and all
  answers of the services, the loop of either script ends, by its condition, by
  \<^verbatim>\<open>break\<close> or by an exception, after at most
  \<open>max 0 (\<lceil>(max_radius - initial_radius) / radius_increment\<rceil> + 1)\<close> iterations, which is
  the bound of the specification when the initial radius is not above the maximum.
\<close>

theorem controller_loop_terminates:
  assumes "0 < radius_increment p"
  shows "(\<exists>r. controller_loop_v3 E p (initial_state_v3 p) = Some r
            \<and> int (iterations_run r) \<le> max 0 (iteration_bound p)
            \<and> (initial_radius p \<le> max_radius p \<longrightarrow> int (iterations_run r) \<le> iteration_bound p))
       \<and> (\<exists>r. controller_loop_v1 E p (initial_state_v1 p) = Some r
            \<and> int (iterations_run r) \<le> max 0 (iteration_bound p)
            \<and> (initial_radius p \<le> max_radius p \<longrightarrow> int (iterations_run r) \<le> iteration_bound p))"
proof -
  have len0: "py_len (wiki_results (initial_state_v3 p)) = Inr 0"
    by (simp add: initial_state_v3_def)
  from loop_v3_terminates [OF assms len0, of E] obtain r3 where
    r3: "controller_loop_v3 E p (initial_state_v3 p) = Some r3"
      "iterations_run r3 \<le> remaining p (initial_radius p)"
    by (auto simp: initial_state_v3_def)
  from loop_v1_terminates [OF assms, of E "initial_state_v1 p"] obtain r1 where
    r1: "controller_loop_v1 E p (initial_state_v1 p) = Some r1"
      "iterations_run r1 \<le> remaining p (initial_radius p)"
    by (auto simp: initial_state_v1_def)
  have b3: "int (iterations_run r3) \<le> max 0 (iteration_bound p)"
    using r3(2) remaining_le_bound [OF assms] by linarith
  have b1: "int (iterations_run r1) \<le> max 0 (iteration_bound p)"
    using r1(2) remaining_le_bound [OF assms] by linarith
  have "initial_radius p \<le> max_radius p \<longrightarrow> max 0 (iteration_bound p) = iteration_bound p"
    using bound_pos [OF assms] by auto
  with r3(1) r1(1) b3 b1 show ?thesis by auto
qed

text \<open>With the constants of the scripts and every request failing, the loop runs its 20
  iterations, from 500 to 10000 metres, and the bound is 20; with nothing but 429 from
  the nearby-features service, it ends in its first iteration.\<close>

theorem controller_loop_terminates_witness:
  "0 < radius_increment params_v3
   \<and> controller_loop_v3 env_404 params_v3 (initial_state_v3 params_v3)
      = Some (Exited \<lparr>current_radius = 10500, wiki_results = JArr [], osm_admin_data = JNull,
                      osm_features_data = [], iterations = 20\<rparr>)
   \<and> controller_loop_v1 env_404 params_v3 (initial_state_v1 params_v3)
      = Some (Exited \<lparr>current_radius = 10500, wiki_results = [], osm_admin_data = JNull,
                      osm_features_data = [], iterations = 20\<rparr>)
   \<and> iteration_bound params_v3 = 20
   \<and> (\<exists>r. controller_loop_v3 env_rate_limited params_v3 (initial_state_v3 params_v3) = Some r
          \<and> int (iterations_run r) \<le> 20)
   \<and> (\<exists>r. controller_loop_v1 env_rate_limited params_v3 (initial_state_v1 params_v3) = Some r
          \<and> int (iterations_run r) \<le> 20)"
proof -
  have inc: "0 < radius_increment params_v3" by (simp add: params_v3_def)
  have l3: "controller_loop_v3 env_404 params_v3 (initial_state_v3 params_v3)
      = Some (Exited \<lparr>current_radius = 10500, wiki_results = JArr [], osm_admin_data = JNull,
                      osm_features_data = [], iterations = 20\<rparr>)"
    by (simp add: controller_loop_v3.simps loop_eval env_404_def)
  have l1: "controller_loop_v1 env_404 params_v3 (initial_state_v1 params_v3)
      = Some (Exited \<lparr>current_radius = 10500, wiki_results = [], osm_admin_data = JNull,
                      osm_features_data = [], iterations = 20\<rparr>)"
    by (simp add: controller_loop_v1.simps loop_eval env_404_def)
  have b: "iteration_bound params_v3 = 20"
    by (simp add: iteration_bound_def params_v3_def)
  have "initial_radius params_v3 \<le> max_radius params_v3" by (simp add: params_v3_def)
  with controller_loop_terminates [OF inc, of env_rate_limited] b
  have r: "(\<exists>r. controller_loop_v3 env_rate_limited params_v3 (initial_state_v3 params_v3)
            = Some r \<and> int (iterations_run r) \<le> 20)
      \<and> (\<exists>r. controller_loop_v1 env_rate_limited params_v3 (initial_state_v1 params_v3)
            = Some r \<and> int (iterations_run r) \<le> 20)"
    by auto
  from inc l3 l1 b r show ?thesis by simp
qed

text \<open>
  The claim as stated fails where the maximum is more than one increment below the initial
  radius: with an initial radius of 1000, a maximum of 0 and an increment of 500 the
  bound is \<open>-1\<close>, and the loop runs no iteration.
\<close>

theorem iteration_bound_counterexample:
  "0 < radius_increment (params_v3\<lparr>initial_radius := 1000, max_radius := 0\<rparr>)
   \<and> iteration_bound (params_v3\<lparr>initial_radius := 1000, max_radius := 0\<rparr>) = - 1
   \<and> controller_loop_v3 env_404 (params_v3\<lparr>initial_radius := 1000, max_radius := 0\<rparr>)
        (initial_state_v3 (params_v3\<lparr>initial_radius := 1000, max_radius := 0\<rparr>))
      = Some (Exited \<lparr>current_radius = 1000, wiki_results = JArr [], osm_admin_data = JNull,
                      osm_features_data = [], iterations = 0\<rparr>)
   \<and> controller_loop_v1 env_404 (params_v3\<lparr>initial_radius := 1000, max_radius := 0\<rparr>)
        (initial_state_v1 (params_v3\<lparr>initial_radius := 1000, max_radius := 0\<rparr>))
      = Some (Exited \<lparr>current_radius = 1000, wiki_results = [], osm_admin_data = JNull,
                      osm_features_data = [], iterations = 0\<rparr>)
   \<and> \<not> int (iterations_run (Exited \<lparr>current_radius = 1000, wiki_results = JArr [],
                 osm_admin_data = JNull, osm_features_data = [], iterations = 0\<rparr>))
        \<le> iteration_bound (params_v3\<lparr>initial_radius := 1000, max_radius := 0\<rparr>)"
proof -
  have b: "iteration_bound (params_v3\<lparr>initial_radius := 1000, max_radius := 0\<rparr>) = - 1"
    by (simp add: iteration_bound_def params_v3_def)
  have l3: "controller_loop_v3 env_404 (params_v3\<lparr>initial_radius := 1000, max_radius := 0\<rparr>)
        (initial_state_v3 (params_v3\<lparr>initial_radius := 1000, max_radius := 0\<rparr>))
      = Some (Exited \<lparr>current_radius = 1000, wiki_results = JArr [], osm_admin_data = JNull,
                      osm_features_data = [], iterations = 0\<rparr>)"
    by (subst controller_loop_v3.simps) (simp add: initial_state_v3_def params_v3_def)
  have l1: "controller_loop_v1 env_404 (params_v3\<lparr>initial_radius := 1000, max_radius := 0\<rparr>)
        (initial_state_v1 (params_v3\<lparr>initial_radius := 1000, max_radius := 0\<rparr>))
      = Some (Exited \<lparr>current_radius = 1000, wiki_results = [], osm_admin_data = JNull,
                      osm_features_data = [], iterations = 0\<rparr>)"
    by (subst controller_loop_v1.simps) (simp add: initial_state_v1_def params_v3_def)
  show ?thesis unfolding b l3 l1 by (simp add: params_v3_def)
qed

section \<open>The administrative-info cache\<close>

lemma merge_v3_admin:
  assumes "merge_v3 p st w a f = Inr st'"
  shows "iterations st' = Suc (iterations st)
       \<and> keep_admin (osm_admin_data st) a = Inr (osm_admin_data st')"
  using assms by (auto simp: merge_v3_def bindE_eq_Inr split: if_splits)

lemma merge_v1_admin:
  assumes "merge_v1 p st w a f = Inr (st', broke)"
  shows "iterations st' = Suc (iterations st)
       \<and> keep_admin (osm_admin_data st) a = Inr (osm_admin_data st')"
  using assms by (auto simp: merge_v1_def bindE_eq_Inr split: if_splits)

lemma admin_kept_refl: "admin_kept E p k a k a"
  by (auto simp: admin_kept_def)

lemma admin_kept_step:
  assumes keep: "keep_admin a (admin_result E p k) = Inr a1"
    and rest: "admin_kept E p (Suc k) a1 k' a'"
  shows "admin_kept E p k a k' a'"
proof (cases "py_truthy a")
  case True
  then have "a1 = a" using keep by (simp add: keep_admin_def)
  then show ?thesis using True rest by (simp add: admin_kept_def)
next
  case False
  then have a1: "admin_result E p k = Inr a1" using keep by (simp add: keep_admin_def)
  have "admin_result E p j = Inr a'"
    if j: "k \<le> j" "j < k'" "first_truthy_admin E p k j" for j
  proof (cases "j = k")
    case True
    then have "py_truthy a1" using j(3) a1 by (simp add: first_truthy_admin_def truthy_result_def)
    then show ?thesis using rest a1 True by (simp add: admin_kept_def)
  next
    case False
    then have "k < j" using j(1) by simp
    then have "\<not> truthy_result (admin_result E p k)"
      using j(3) by (simp add: first_truthy_admin_def)
    then have nt: "\<not> py_truthy a1" using a1 by (simp add: truthy_result_def)
    have "first_truthy_admin E p (Suc k) j"
      using j(3) by (simp add: first_truthy_admin_def)
    then show ?thesis using rest nt \<open>k < j\<close> j(2) by (simp add: admin_kept_def)
  qed
  then show ?thesis using False by (simp add: admin_kept_def)
qed

lemma loop_v3_keeps_admin:
  assumes "controller_loop_v3 E p st = Some r"
  shows "\<forall>st'. r = Exited st' \<longrightarrow>
     admin_kept E p (iterations st) (osm_admin_data st) (iterations st') (osm_admin_data st')"
proof (rule controller_loop_v3.raw_induct [where P = "\<lambda>E p st r. \<forall>st'. r = Exited st' \<longrightarrow>
     admin_kept E p (iterations st) (osm_admin_data st) (iterations st') (osm_admin_data st')",
     OF _ assms], goal_cases)
  case (1 loop E p st r)
  show ?case
  proof (intro allI impI)
    fix st' assume r: "r = Exited st'"
    show "admin_kept E p (iterations st) (osm_admin_data st) (iterations st') (osm_admin_data st')"
    proof (cases "current_radius st \<le> max_radius p
        \<and> (\<exists>n. py_len (wiki_results st) = Inr n \<and> int n < min_results p)")
      case False
      then have "st' = st" using 1(2) r by (auto split: if_splits sum.splits)
      then show ?thesis by (simp add: admin_kept_refl)
    next
      case True
      then obtain st1 where it: "iteration_v3 E p st = Inr st1"
        and rec: "loop E p st1 = Some r"
        using 1(2) r by (auto split: if_splits sum.splits)
      from it obtain w f where
        "merge_v3 p st w (admin_result E p (iterations st)) f = Inr st1"
        by (auto simp: iteration_v3_def admin_result_def)
      from merge_v3_admin [OF this] 1(1) [OF rec] r show ?thesis
        by (auto intro: admin_kept_step)
    qed
  qed
qed

lemma loop_v1_keeps_admin:
  assumes "controller_loop_v1 E p st = Some r"
  shows "\<forall>st'. r = Exited st' \<longrightarrow>
     admin_kept E p (iterations st) (osm_admin_data st) (iterations st') (osm_admin_data st')"
proof (rule controller_loop_v1.raw_induct [where P = "\<lambda>E p st r. \<forall>st'. r = Exited st' \<longrightarrow>
     admin_kept E p (iterations st) (osm_admin_data st) (iterations st') (osm_admin_data st')",
     OF _ assms], goal_cases)
  case (1 loop E p st r)
  show ?case
  proof (intro allI impI)
    fix st' assume r: "r = Exited st'"
    show "admin_kept E p (iterations st) (osm_admin_data st) (iterations st') (osm_admin_data st')"
    proof (cases "current_radius st \<le> max_radius p
        \<and> int (length (wiki_results st)) < min_results p")
      case False
      then have "st' = st" using 1(2) r by (auto split: if_splits)
      then show ?thesis by (simp add: admin_kept_refl)
    next
      case True
      then obtain st1 broke where it: "iteration_v1 E p st = Inr (st1, broke)"
        and rec: "if broke then st' = st1 else loop E p st1 = Some r"
        using 1(2) r by (auto split: if_splits sum.splits)
      from it obtain w f where
        "merge_v1 p st w (admin_result E p (iterations st)) f = Inr (st1, broke)"
        by (auto simp: iteration_v1_def admin_result_def)
      note m = merge_v1_admin [OF this]
      have "admin_kept E p (Suc (iterations st)) (osm_admin_data st1) (iterations st')
          (osm_admin_data st')"
      proof (cases broke)
        case True
        then show ?thesis using rec m by (auto simp: admin_kept_def)
      next
        case False
        then have rec': "loop E p st1 = Some r" using rec by simp
        from 1(1) [OF rec'] r m show ?thesis by simp
      qed
      with m show ?thesis by (auto intro: admin_kept_step)
    qed
  qed
qed

text \<open>
  C4. In both scripts, when the loop ends by its condition or by \<^verbatim>\<open>break\<close>: if the
  cache \<open>osm_admin_data\<close> held a non-empty value in state \<open>st\<close>, it holds the same value
  at the end; and if it was empty in \<open>st\<close> and iteration \<open>j\<close> is the first from there in
  which the reverse-geocoder client returns a non-empty result, the cache holds that result
  at the end, whatever the client returns later.
\<close>

theorem first_admin_result_is_retained:
  "(controller_loop_v3 E p st = Some (Exited st') \<longrightarrow>
      (py_truthy (osm_admin_data st) \<longrightarrow> osm_admin_data st' = osm_admin_data st)
      \<and> (\<not> py_truthy (osm_admin_data st) \<and> iterations st \<le> j \<and> j < iterations st'
           \<and> first_truthy_admin E p (iterations st) j
         \<longrightarrow> admin_result E p j = Inr (osm_admin_data st')))
   \<and> (controller_loop_v1 E p s = Some (Exited s') \<longrightarrow>
      (py_truthy (osm_admin_data s) \<longrightarrow> osm_admin_data s' = osm_admin_data s)
      \<and> (\<not> py_truthy (osm_admin_data s) \<and> iterations s \<le> j \<and> j < iterations s'
           \<and> first_truthy_admin E p (iterations s) j
         \<longrightarrow> admin_result E p j = Inr (osm_admin_data s')))"
  using loop_v3_keeps_admin [of E p st "Exited st'"] loop_v1_keeps_admin [of E p s "Exited s'"]
  unfolding admin_kept_def by blast

text \<open>
  The reverse geocoder fails in iteration 0, answers ``Washington'' in iteration 1 and
  ``Elsewhere'' from iteration 2 on, and no article is ever found: after the 20 iterations
  the cache holds the answer of iteration 1. So does it when the loop is entered at 9500
  metres with that answer in the cache.
\<close>

theorem first_admin_result_is_retained_witness:
  "controller_loop_v3 env_admin params_v3 (initial_state_v3 params_v3)
     = Some (Exited \<lparr>current_radius = 10500, wiki_results = JArr [],
          osm_admin_data = JObj [(''place_id'', JNum 1),
                                 (''display_name'', JStr ''Washington, District of Columbia'')],
          osm_features_data = [], iterations = 20\<rparr>)
   \<and> controller_loop_v1 env_admin params_v1 (initial_state_v1 params_v1)
     = Some (Exited \<lparr>current_radius = 10500, wiki_results = [],
          osm_admin_data = JObj [(''place_id'', JNum 1),
                                 (''display_name'', JStr ''Washington, District of Columbia'')],
          osm_features_data = [], iterations = 20\<rparr>)
   \<and> first_truthy_admin env_admin params_v3 0 1
   \<and> first_truthy_admin env_admin params_v1 0 1
   \<and> admin_result env_admin params_v3 1
     = Inr (JObj [(''place_id'', JNum 1),
                  (''display_name'', JStr ''Washington, District of Columbia'')])
   \<and> admin_result env_admin params_v3 2 = Inr (JObj [(''display_name'', JStr ''Elsewhere'')])
   \<and> controller_loop_v3 env_admin params_v3
        \<lparr>current_radius = 9500, wiki_results = JArr [],
         osm_admin_data = JObj [(''place_id'', JNum 1),
                                (''display_name'', JStr ''Washington, District of Columbia'')],
         osm_features_data = [], iterations = 18\<rparr>
     = Some (Exited \<lparr>current_radius = 10500, wiki_results = JArr [],
          osm_admin_data = JObj [(''place_id'', JNum 1),
                                 (''display_name'', JStr ''Washington, District of Columbia'')],
          osm_features_data = [], iterations = 20\<rparr>)"
proof -
  let ?w = "JObj [(''place_id'', JNum 1),
                  (''display_name'', JStr ''Washington, District of Columbia'')]"
  let ?end3 = "\<lparr>current_radius = 10500, wiki_results = JArr [], osm_admin_data = ?w,
          osm_features_data = [], iterations = 20\<rparr>"
  let ?end1 = "\<lparr>current_radius = 10500, wiki_results = [], osm_admin_data = ?w,
          osm_features_data = [], iterations = 20\<rparr>"
  let ?mid3 = "\<lparr>current_radius = 9500, wiki_results = JArr [], osm_admin_data = ?w,
          osm_features_data = [], iterations = 18\<rparr>"
  have l3: "controller_loop_v3 env_admin params_v3 (initial_state_v3 params_v3)
      = Some (Exited ?end3)"
    by (simp add: controller_loop_v3.simps loop_eval env_admin_def admin_answer_def)
  have l1: "controller_loop_v1 env_admin params_v1 (initial_state_v1 params_v1)
      = Some (Exited ?end1)"
    by (simp add: controller_loop_v1.simps loop_eval env_admin_def admin_answer_def)
  have m3: "controller_loop_v3 env_admin params_v3 ?mid3 = Some (Exited ?end3)"
    by (simp add: controller_loop_v3.simps loop_eval env_admin_def admin_answer_def)
  have f3: "first_truthy_admin env_admin params_v3 0 1"
    by (simp add: first_truthy_admin_def truthy_result_def admin_result_def
        get_osm_administrative_info_def response_json_def env_admin_def admin_answer_def)
  have f1: "first_truthy_admin env_admin params_v1 0 1"
    by (simp add: first_truthy_admin_def truthy_result_def admin_result_def
        get_osm_administrative_info_def response_json_def env_admin_def admin_answer_def)
  have a2: "admin_result env_admin params_v3 2 = Inr (JObj [(''display_name'', JStr ''Elsewhere'')])"
    by (simp add: admin_result_def get_osm_administrative_info_def response_json_def
        env_admin_def)
  have i3: "\<not> py_truthy (osm_admin_data (initial_state_v3 params_v3))
      \<and> iterations (initial_state_v3 params_v3) = 0"
    by (simp add: initial_state_v3_def)
  have i1: "\<not> py_truthy (osm_admin_data (initial_state_v1 params_v1))
      \<and> iterations (initial_state_v1 params_v1) = 0"
    by (simp add: initial_state_v1_def)
  from first_admin_result_is_retained [where E = env_admin and p = params_v3
      and st = "initial_state_v3 params_v3" and st' = ?end3 and j = 1, THEN conjunct1] l3 f3 i3
  have r3: "admin_result env_admin params_v3 1 = Inr ?w" by simp
  from first_admin_result_is_retained [where E = env_admin and p = params_v1
      and s = "initial_state_v1 params_v1" and s' = ?end1 and j = 1, THEN conjunct2] l1 f1 i1
  have r1: "admin_result env_admin params_v1 1 = Inr ?w" by simp
  from first_admin_result_is_retained [where E = env_admin and p = params_v3
      and st = ?mid3 and st' = ?end3, THEN conjunct1] m3
  have "osm_admin_data ?end3 = osm_admin_data ?mid3" by simp
  with l3 l1 m3 f3 f1 r3 a2 show ?thesis by simp
qed

section \<open>Distances\<close>

lemma half_angle_identity:
  fixes u v :: real
  shows "(sin (v - u))\<^sup>2 + cos (2 * u) * cos (2 * v) = (cos (u + v))\<^sup>2"
  unfolding sin_diff cos_add cos_double
  by (simp add: power2_eq_square algebra_simps)

lemma haversine_a_convex:
  "haversine_a lat1 lon1 lat2 lon2 =
     (1 - (sin (radians (lon2 - lon1) / 2))\<^sup>2) * (sin (radians (lat2 - lat1) / 2))\<^sup>2
     + (sin (radians (lon2 - lon1) / 2))\<^sup>2 * (cos ((radians lat1 + radians lat2) / 2))\<^sup>2"
proof -
  have "(sin (radians lat2 / 2 - radians lat1 / 2))\<^sup>2
        + cos (2 * (radians lat1 / 2)) * cos (2 * (radians lat2 / 2))
      = (cos (radians lat1 / 2 + radians lat2 / 2))\<^sup>2"
    by (rule half_angle_identity)
  moreover have "radians (lat2 - lat1) / 2 = radians lat2 / 2 - radians lat1 / 2"
    by (simp add: radians_def field_simps)
  moreover have "(radians lat1 + radians lat2) / 2 = radians lat1 / 2 + radians lat2 / 2"
    by (simp add: field_simps)
  ultimately have "(sin (radians (lat2 - lat1) / 2))\<^sup>2
        + cos (radians lat1) * cos (radians lat2)
      = (cos ((radians lat1 + radians lat2) / 2))\<^sup>2"
    by (simp only: mult_2 [symmetric] field_sum_of_halves times_divide_eq_right
        nonzero_mult_div_cancel_left)
  then have cc: "cos (radians lat1) * cos (radians lat2)
      = (cos ((radians lat1 + radians lat2) / 2))\<^sup>2 - (sin (radians (lat2 - lat1) / 2))\<^sup>2"
    by linarith
  show ?thesis unfolding haversine_a_def cc by (simp add: algebra_simps)
qed

lemma haversine_a_range:
  "0 \<le> haversine_a lat1 lon1 lat2 lon2 \<and> haversine_a lat1 lon1 lat2 lon2 \<le> 1"
proof -
  define s where "s = (sin (radians (lon2 - lon1) / 2))\<^sup>2"
  define x where "x = (sin (radians (lat2 - lat1) / 2))\<^sup>2"
  define y where "y = (cos ((radians lat1 + radians lat2) / 2))\<^sup>2"
  have s: "0 \<le> s" "s \<le> 1" and x: "0 \<le> x" "x \<le> 1" and y: "0 \<le> y" "y \<le> 1"
    by (simp_all add: s_def x_def y_def abs_square_le_1)
  have a: "haversine_a lat1 lon1 lat2 lon2 = (1 - s) * x + s * y"
    unfolding s_def x_def y_def by (rule haversine_a_convex)
  have "0 \<le> (1 - s) * x" "0 \<le> s * y" using s x y by simp_all
  moreover have "(1 - s) * x \<le> (1 - s) * 1" using s x by (intro mult_left_mono) simp_all
  moreover have "s * y \<le> s * 1" using s y by (intro mult_left_mono) simp_all
  ultimately show ?thesis unfolding a by simp
qed

lemma atan2_arcsin:
  assumes "0 \<le> a" "a \<le> 1"
  shows "atan2 (sqrt a) (sqrt (1 - a)) = arcsin (sqrt a)"
proof (cases "a = 1")
  case True
  then show ?thesis by (simp add: atan2_def)
next
  case False
  then have lt: "a < 1" using assms by simp
  then have pos: "0 < sqrt (1 - a)" by simp
  have "sqrt a < 1" using lt assms by (simp add: real_sqrt_lt_1_iff)
  moreover have "- 1 < sqrt a"
  proof -
    have "0 \<le> sqrt a" using assms by simp
    then show ?thesis by linarith
  qed
  ultimately have "arcsin (sqrt a) = arctan (sqrt a / sqrt (1 - (sqrt a)\<^sup>2))"
    using arcsin_arctan [of "sqrt a"] by simp
  then show ?thesis using pos assms by (simp add: atan2_def)
qed

lemma py_round_nearest: "\<bar>real_of_int (py_round x) - x\<bar> \<le> 1 / 2"
proof -
  have "of_int \<lfloor>x\<rfloor> \<le> x" "x < of_int \<lfloor>x\<rfloor> + 1" by linarith+
  then show ?thesis by (auto simp: py_round_def Let_def)
qed

lemma py_round_zero: "py_round 0 = 0"
  by (simp add: py_round_def)

lemma float_limit_large: "1000 < float_limit"
proof -
  have "(2::real) ^ 11 \<le> 2 ^ 970" by (rule power_increasing) simp_all
  moreover have "(2::real) ^ 1024 = 2 ^ 54 * 2 ^ 970" by (simp add: power_add [symmetric])
  ultimately show ?thesis by (simp add: float_limit_def)
qed

lemma as_double_num: "\<bar>x\<bar> < float_limit \<Longrightarrow> as_double (JNum x) = Inr x"
  by (simp add: as_double_def)

lemma as_double_Inr: "as_double v = Inr x \<Longrightarrow> py_float v = Inr x \<and> \<bar>x\<bar> < float_limit"
  by (auto simp: as_double_def split: sum.splits if_splits)

lemma computed_a_exact: "computed_a exact lat1 lon1 lat2 lon2 = haversine_a lat1 lon1 lat2 lon2"
  by (simp add: computed_a_def exact_def haversine_a_def)

lemma computed_distance_exact:
  "computed_distance exact lat1 lon1 lat2 lon2 = great_circle 6371000 lat1 lon1 lat2 lon2"
proof -
  note r = haversine_a_range [of lat1 lon1 lat2 lon2]
  have "computed_distance exact lat1 lon1 lat2 lon2
      = 6371000 * (2 * atan2 (sqrt (haversine_a lat1 lon1 lat2 lon2))
                            (sqrt (1 - haversine_a lat1 lon1 lat2 lon2)))"
    by (simp add: computed_distance_def computed_a_exact) (simp add: exact_def)
  also have "\<dots> = great_circle 6371000 lat1 lon1 lat2 lon2"
    using r by (simp add: atan2_arcsin great_circle_def)
  finally show ?thesis .
qed

lemma haversine_distance_cases:
  assumes "as_double la = Inr x" "as_double lo = Inr y"
  shows "haversine_distance F lat1 lon1 la lo =
     (if computed_a F lat1 lon1 x y < 0 \<or> fl_sub F 1 (computed_a F lat1 lon1 x y) < 0
      then Inl ValueError
      else Inr (py_round (computed_distance F lat1 lon1 x y)))"
  using assms
  by (simp add: haversine_distance_def Let_def py_sqrt_def computed_a_def [symmetric]
      computed_distance_def)

lemma haversine_distance_Inr:
  assumes "haversine_distance F lat1 lon1 la lo = Inr d"
  shows "\<exists>x y. as_double la = Inr x \<and> as_double lo = Inr y
            \<and> d = py_round (computed_distance F lat1 lon1 x y)"
proof -
  from assms obtain x y where xy: "as_double la = Inr x" "as_double lo = Inr y"
    by (auto simp: haversine_distance_def bindE_eq_Inr)
  from haversine_distance_cases [OF this, of F lat1 lon1] assms xy show ?thesis
    by (auto split: if_splits)
qed

lemma haversine_distance_exact:
  assumes "\<bar>x\<bar> < float_limit" "\<bar>y\<bar> < float_limit"
  shows "haversine_distance exact clat clon (JNum x) (JNum y)
     = Inr (py_round (great_circle 6371000 clat clon x y))"
proof -
  note r = haversine_a_range [of clat clon x y]
  have "\<not> (computed_a exact clat clon x y < 0
      \<or> fl_sub exact 1 (computed_a exact clat clon x y) < 0)"
    using r by (simp add: computed_a_exact) (simp add: exact_def)
  with haversine_distance_cases [OF as_double_num [OF assms(1)] as_double_num [OF assms(2)],
      of exact clat clon]
  show ?thesis by (simp add: computed_distance_exact)
qed

lemma computed_same:
  assumes "zero_laws F"
  shows "computed_a F lat lon lat lon = 0" "computed_distance F lat lon lat lon = 0"
proof -
  show a: "computed_a F lat lon lat lon = 0"
    using assms by (simp add: computed_a_def zero_laws_def)
  show "computed_distance F lat lon lat lon = 0"
    using assms by (simp add: computed_distance_def a) (simp add: zero_laws_def)
qed

lemma zero_laws_exact: "zero_laws exact"
  by (simp add: zero_laws_def exact_def radians_def atan2_def)

lemma haversine_a_same: "haversine_a lat lon lat lon = 0"
  by (simp add: haversine_a_def radians_def)

lemma great_circle_same: "great_circle R lat lon lat lon = 0"
  by (simp add: great_circle_def haversine_a_same)

lemma haversine_distance_num:
  "\<bar>x\<bar> \<le> 1000 \<Longrightarrow> \<bar>y\<bar> \<le> 1000 \<Longrightarrow>
   haversine_distance exact clat clon (JNum x) (JNum y)
     = Inr (py_round (great_circle 6371000 clat clon x y))"
  using float_limit_large by (intro haversine_distance_exact) linarith+

text \<open>Machin's formula and the series of the arc tangent give \<open>pi\<close> to six digits.\<close>

lemma arctan_partial_sums:
  fixes x :: real
  assumes "0 \<le> x" "x \<le> 1"
  shows "(\<Sum>i<2 * n. (- 1) ^ i * (1 / real (i * 2 + 1) * x ^ (i * 2 + 1))) \<le> arctan x"
    and "arctan x \<le> (\<Sum>i<2 * n + 1. (- 1) ^ i * (1 / real (i * 2 + 1) * x ^ (i * 2 + 1)))"
proof -
  let ?a = "\<lambda>i. 1 / real (i * 2 + 1) * x ^ (i * 2 + 1)"
  have abs: "\<bar>x\<bar> \<le> 1" using assms by simp
  have lim: "?a \<longlonglongrightarrow> 0" using abs by (rule zeroseq_arctan_series)
  have pos: "0 \<le> ?a i" for i using assms by simp
  have dec: "?a (Suc i) \<le> ?a i" for i
  proof -
    have "x ^ (Suc i * 2 + 1) \<le> x ^ (i * 2 + 1)"
      using assms by (intro power_decreasing) simp_all
    moreover have "1 / real (Suc i * 2 + 1) \<le> 1 / real (i * 2 + 1)"
      by (intro divide_left_mono) simp_all
    moreover have "0 \<le> x ^ (Suc i * 2 + 1)" "0 \<le> 1 / real (i * 2 + 1)"
      using assms by simp_all
    ultimately show ?thesis by (intro mult_mono) simp_all
  qed
  have series: "arctan x = (\<Sum>i. (- 1) ^ i * ?a i)" using abs by (rule arctan_series)
  show "(\<Sum>i<2 * n. (- 1) ^ i * ?a i) \<le> arctan x"
    unfolding series by (rule summable_Leibniz'(2) [OF lim pos dec])
  show "arctan x \<le> (\<Sum>i<2 * n + 1. (- 1) ^ i * ?a i)"
    unfolding series by (rule summable_Leibniz'(4) [OF lim pos dec])
qed

lemma pi_bounds: "3.141591 < pi" "pi < 3.141593"
proof -
  have l5: "(\<Sum>i<2 * 2. (- 1) ^ i * (1 / real (i * 2 + 1) * (1 / 5) ^ (i * 2 + 1)))
      \<le> arctan (1 / 5 :: real)"
    by (rule arctan_partial_sums) simp_all
  have u5: "arctan (1 / 5 :: real)
      \<le> (\<Sum>i<2 * 2 + 1. (- 1) ^ i * (1 / real (i * 2 + 1) * (1 / 5) ^ (i * 2 + 1)))"
    by (rule arctan_partial_sums) simp_all
  have l239: "(\<Sum>i<2 * 1. (- 1) ^ i * (1 / real (i * 2 + 1) * (1 / 239) ^ (i * 2 + 1)))
      \<le> arctan (1 / 239 :: real)"
    by (rule arctan_partial_sums) simp_all
  have u239: "arctan (1 / 239 :: real)
      \<le> (\<Sum>i<2 * 0 + 1. (- 1) ^ i * (1 / real (i * 2 + 1) * (1 / 239) ^ (i * 2 + 1)))"
    by (rule arctan_partial_sums) simp_all
  have pi4: "pi = 16 * arctan (1 / 5) - 4 * arctan (1 / 239)"
    using machin by simp
  have a: "(1 / 5 - 1 / (3 * 5 ^ 3) + 1 / (5 * 5 ^ 5) - 1 / (7 * 5 ^ 7) :: real) \<le> arctan (1 / 5)"
    using l5 by (simp add: lessThan_Suc numeral_eq_Suc power_divide)
  have b: "arctan (1 / 5)
      \<le> (1 / 5 - 1 / (3 * 5 ^ 3) + 1 / (5 * 5 ^ 5) - 1 / (7 * 5 ^ 7) + 1 / (9 * 5 ^ 9) :: real)"
    using u5 by (simp add: lessThan_Suc numeral_eq_Suc power_divide)
  have c: "(1 / 239 - 1 / (3 * 239 ^ 3) :: real) \<le> arctan (1 / 239)"
    using l239 by (simp add: lessThan_Suc numeral_eq_Suc power_divide)
  have d: "arctan (1 / 239) \<le> (1 / 239 :: real)"
    using u239 by (simp add: lessThan_Suc)
  show "3.141591 < pi" using a d unfolding pi4 by simp
  show "pi < 3.141593" using b c unfolding pi4 by simp
qed

lemma py_round_between:
  assumes "real_of_int n - 1 / 2 < x" "x < real_of_int n + 1 / 2"
  shows "py_round x = n"
proof -
  have "\<lfloor>x\<rfloor> = n \<or> \<lfloor>x\<rfloor> = n - 1" using assms by linarith
  then show ?thesis
  proof
    assume f: "\<lfloor>x\<rfloor> = n"
    then have "x - real_of_int n < 1 / 2" using assms by simp
    with f show ?thesis by (simp add: py_round_def Let_def)
  next
    assume f: "\<lfloor>x\<rfloor> = n - 1"
    then have "1 / 2 < x - real_of_int (n - 1)" using assms by simp
    with f show ?thesis by (simp add: py_round_def Let_def)
  qed
qed

lemma ten_degrees_rounded: "py_round (6371000 * pi / 18) = 1111949"
  using pi_bounds by (intro py_round_between) simp_all

lemma row_v3_distance:
  assumes "wikipedia_row_v3 F p r pl = Inr row"
  shows "\<exists>x y. bindE (py_getitem pl ''lat'') as_double = Inr x
            \<and> bindE (py_getitem pl ''lon'') as_double = Inr y
            \<and> row ! 4 = CInt (py_round (computed_distance F (center_lat p) (center_lon p) x y))"
proof -
  from assms obtain la lo d title u where
    g: "py_getitem pl ''lat'' = Inr la" "py_getitem pl ''lon'' = Inr lo"
    and d: "haversine_distance F (center_lat p) (center_lon p) la lo = Inr d"
    and row: "row = [CStr ''Wikipedia'', CVal title, CVal la, CVal lo, CInt d, CVal u]"
    by (auto simp: wikipedia_row_v3_def distance_v3_def bindE_eq_Inr)
  from haversine_distance_Inr [OF d] g row show ?thesis by auto
qed

lemma row_v1_distance:
  assumes "wikipedia_row_v1 L p pl = Inr row"
  shows "\<exists>la lo d. py_getitem pl ''lat'' = Inr la \<and> py_getitem pl ''lon'' = Inr lo
            \<and> lib_haversine L (center_lat p, center_lon p) (la, lo) = Inr d
            \<and> row ! 4 = CFloat d"
  using assms by (auto simp: wikipedia_row_v1_def distance_v1_def bindE_eq_Inr)

lemma radians_diff: "radians a - radians b = radians (a - b)"
  by (simp add: radians_def field_simps)

lemma pkg_ten_degrees:
  "haversine_pkg (38.897685330838804, - 77.03653317988284)
     (JNum 48.897685330838804, JNum (- 77.03653317988284)) = Inr (6371008.8 * pi / 18)"
proof -
  have rng: "0 \<le> pi / 36" "pi / 36 \<le> pi / 2" "- (pi / 2) \<le> pi / 36" by simp_all
  have "0 \<le> sin (pi / 36)" using rng by (intro sin_ge_zero) simp_all
  then have s: "\<bar>sin (pi / 36)\<bar> = sin (pi / 36)" by simp
  have a: "arcsin (sin (pi / 36)) = pi / 36" using rng by (intro arcsin_sin) simp_all
  have le: "\<not> 1 < sin (pi / 36)" using sin_le_one [of "pi / 36"] by linarith
  have r10: "radians 10 * 0.5 = pi / 36" by (simp add: radians_def)
  show ?thesis
    by (simp add: haversine_pkg_def Let_def radians_diff py_sqrt_def exact_def radians_def s a le)
qed

lemma ten_degrees_north:
  "great_circle R clat clon (clat + 10) clon = R * pi / 18"
proof -
  have rng: "0 \<le> pi / 36" "pi / 36 \<le> pi / 2" "- (pi / 2) \<le> pi / 36" by simp_all
  have "0 \<le> sin (pi / 36)" using rng by (intro sin_ge_zero) simp_all
  then have s: "\<bar>sin (pi / 36)\<bar> = sin (pi / 36)" by simp
  have a: "arcsin (sin (pi / 36)) = pi / 36" using rng by (intro arcsin_sin) simp_all
  show ?thesis by (simp add: great_circle_def haversine_a_def radians_def s a)
qed

text \<open>
  C5, as amended. In \<^verbatim>\<open>geo2wiki-osm_v3.py\<close> the distance cell of every row that
  \<^verbatim>\<open>wiki_results\<close> yields holds \<^verbatim>\<open>round(R * c)\<close> for the centre and the coordinates of
  the place: the integer nearest to the product \<^verbatim>\<open>R * c\<close> as the float operations give
  it, with \<open>R = 6371000\<close>. In exact arithmetic that product is the haversine great-circle
  distance \<open>2 R arcsin (sqrt a)\<close>. Where the operations make \<^verbatim>\<open>a\<close> negative or more than
  1 the distance raises \<^verbatim>\<open>ValueError\<close> instead, and for the centre itself it is 0. In
  \<^verbatim>\<open>geo2wiki-osm.py\<close> the distance cell holds the number the package \<^verbatim>\<open>haversine\<close>
  returns, as it returns it.
\<close>

theorem emitted_distance:
  "(wikipedia_row_v3 F p r pl = Inr row \<longrightarrow>
      (\<exists>x y. bindE (py_getitem pl ''lat'') as_double = Inr x
          \<and> bindE (py_getitem pl ''lon'') as_double = Inr y
          \<and> row ! 4
            = CInt (py_round (computed_distance F (center_lat p) (center_lon p) x y))))
   \<and> \<bar>real_of_int (py_round (computed_distance F clat clon lat lon))
        - computed_distance F clat clon lat lon\<bar> \<le> 1 / 2
   \<and> computed_distance exact clat clon lat lon = great_circle 6371000 clat clon lat lon
   \<and> (\<bar>lat\<bar> < float_limit \<and> \<bar>lon\<bar> < float_limit \<longrightarrow>
        haversine_distance F clat clon (JNum lat) (JNum lon)
          = (if computed_a F clat clon lat lon < 0
                \<or> fl_sub F 1 (computed_a F clat clon lat lon) < 0
             then Inl ValueError
             else Inr (py_round (computed_distance F clat clon lat lon))))
   \<and> (zero_laws F \<and> \<bar>clat\<bar> < float_limit \<and> \<bar>clon\<bar> < float_limit \<longrightarrow>
        haversine_distance F clat clon (JNum clat) (JNum clon) = Inr 0)
   \<and> (wikipedia_row_v1 L p pl = Inr row' \<longrightarrow>
        (\<exists>la lo d. py_getitem pl ''lat'' = Inr la \<and> py_getitem pl ''lon'' = Inr lo
            \<and> lib_haversine L (center_lat p, center_lon p) (la, lo) = Inr d
            \<and> row' ! 4 = CFloat d))"
proof -
  have same: "haversine_distance F clat clon (JNum clat) (JNum clon) = Inr 0"
    if "zero_laws F" "\<bar>clat\<bar> < float_limit" "\<bar>clon\<bar> < float_limit"
    using haversine_distance_cases [OF as_double_num [OF that(2)] as_double_num [OF that(3)],
        of F clat clon] computed_same [OF that(1), of clat clon] that(1)
    by (simp add: py_round_zero zero_laws_def)
  have cases: "haversine_distance F clat clon (JNum lat) (JNum lon)
          = (if computed_a F clat clon lat lon < 0
                \<or> fl_sub F 1 (computed_a F clat clon lat lon) < 0
             then Inl ValueError
             else Inr (py_round (computed_distance F clat clon lat lon)))"
    if "\<bar>lat\<bar> < float_limit" "\<bar>lon\<bar> < float_limit"
    using haversine_distance_cases [OF as_double_num [OF that(1)] as_double_num [OF that(2)]] .
  from same cases
    py_round_nearest [of "computed_distance F clat clon lat lon"]
    computed_distance_exact [of clat clon lat lon]
    row_v3_distance [of F p r pl row] row_v1_distance [of L p pl row']
  show ?thesis by blast
qed

text \<open>
  In exact arithmetic, an article ten degrees north of the centre of
  \<^verbatim>\<open>geo2wiki-osm_v3.py\<close> is given \<open>6371000 * pi / 18\<close> rounded, which is 1111949, and
  the article at the centre itself 0. In an arithmetic whose every sum comes out \<open>2\<^sup>-\<^sup>5\<^sup>2\<close> too large, the
  distance between two antipodes on the equator raises \<^verbatim>\<open>ValueError\<close>. And in
  \<^verbatim>\<open>geo2wiki-osm.py\<close> the article at the centre is given 0.
\<close>

theorem emitted_distance_witness:
  "wikipedia_row_v3 exact params_v3 url_answer
      (place ''Ten degrees north'' 48.89777476492068 (- 77.03654524519337))
     = Inr [CStr ''Wikipedia'', CVal (JStr ''Ten degrees north''),
            CVal (JNum 48.89777476492068), CVal (JNum (- 77.03654524519337)),
            CInt 1111949,
            CVal (JStr ''https://en.wikipedia.org/wiki/White_House'')]
   \<and> computed_distance exact (center_lat params_v3) (center_lon params_v3)
        48.89777476492068 (- 77.03654524519337) = 6371000 * pi / 18
   \<and> zero_laws exact
   \<and> haversine_distance exact (center_lat params_v3) (center_lon params_v3)
        (JNum 38.89777476492068) (JNum (- 77.03654524519337)) = Inr 0
   \<and> haversine_distance (exact\<lparr>fl_add := \<lambda>x y. x + y + 1 / 2 ^ 52\<rparr>) 0 0 (JNum 0) (JNum 180)
       = Inl ValueError
   \<and> wikipedia_row_v1 packages params_v1
      (place ''White House'' 38.897685330838804 (- 77.03653317988284))
     = Inr [CStr ''Wikipedia'', CVal (JStr ''White House''), CVal (JNum 38.897685330838804),
            CVal (JNum (- 77.03653317988284)), CFloat 0, CUrl (ArticleUrl ''White House'')]
   \<and> lib_haversine packages (center_lat params_v1, center_lon params_v1)
        (JNum 38.897685330838804, JNum (- 77.03653317988284)) = Inr 0"
proof -
  let ?pl3 = "place ''Ten degrees north'' 48.89777476492068 (- 77.03654524519337)"
  let ?pl1 = "place ''White House'' 38.897685330838804 (- 77.03653317988284)"
  let ?row3 = "[CStr ''Wikipedia'', CVal (JStr ''Ten degrees north''),
            CVal (JNum 48.89777476492068), CVal (JNum (- 77.03654524519337)),
            CInt 1111949,
            CVal (JStr ''https://en.wikipedia.org/wiki/White_House'')]"
  let ?row1 = "[CStr ''Wikipedia'', CVal (JStr ''White House''), CVal (JNum 38.897685330838804),
            CVal (JNum (- 77.03653317988284)), CFloat 0, CUrl (ArticleUrl ''White House'')]"
  let ?up = "exact\<lparr>fl_add := \<lambda>x y. x + y + 1 / 2 ^ 52\<rparr>"
  have ten: "great_circle 6371000 (center_lat params_v3) (center_lon params_v3)
      48.89777476492068 (- 77.03654524519337) = 6371000 * pi / 18"
    using ten_degrees_north [of 6371000 "38.89777476492068" "- 77.03654524519337"]
    by (simp add: params_v3_def)
  note inst = emitted_distance [where F = exact and p = params_v3 and r = url_answer
      and pl = ?pl3 and row = ?row3 and clat = "center_lat params_v3"
      and clon = "center_lon params_v3" and lat = "48.89777476492068"
      and lon = "- 77.03654524519337"]
  note exact_value = inst [THEN conjunct2, THEN conjunct2, THEN conjunct1]
  note cases = inst [THEN conjunct2, THEN conjunct2, THEN conjunct2, THEN conjunct1, rule_format]
  from exact_value ten have cd: "computed_distance exact (center_lat params_v3)
        (center_lon params_v3) 48.89777476492068 (- 77.03654524519337) = 6371000 * pi / 18"
    by (simp only:)
  have in_range: "\<bar>48.89777476492068\<bar> < float_limit \<and> \<bar>- 77.03654524519337\<bar> < float_limit"
    using float_limit_large by simp
  have fine: "\<not> (computed_a exact (center_lat params_v3) (center_lon params_v3)
          48.89777476492068 (- 77.03654524519337) < 0
        \<or> fl_sub exact 1 (computed_a exact (center_lat params_v3) (center_lon params_v3)
          48.89777476492068 (- 77.03654524519337)) < 0)"
    using haversine_a_range [of "center_lat params_v3" "center_lon params_v3"
        "48.89777476492068" "- 77.03654524519337"]
    by (simp add: computed_a_exact) (simp add: exact_def)
  have d3: "haversine_distance exact (center_lat params_v3)
      (center_lon params_v3) (JNum 48.89777476492068) (JNum (- 77.03654524519337))
      = Inr 1111949"
    unfolding cases [OF in_range] using fine cd by (simp only: if_False ten_degrees_rounded)
  have r3: "wikipedia_row_v3 exact params_v3 url_answer ?pl3 = Inr ?row3"
    using d3
    by (simp add: wikipedia_row_v3_def distance_v3_def place_def
        get_wikipedia_url_v3_def url_answer_def response_json_def)
  have z: "zero_laws exact"
    by (simp add: zero_laws_def exact_def radians_def atan2_def)
  have c_range: "\<bar>center_lat params_v3\<bar> < float_limit \<and> \<bar>center_lon params_v3\<bar> < float_limit"
    using float_limit_large by (simp add: params_v3_def)
  from inst [THEN conjunct2, THEN conjunct2, THEN conjunct2, THEN conjunct2, THEN conjunct1]
    z c_range
  have d0: "haversine_distance exact (center_lat params_v3)
      (center_lon params_v3) (JNum (center_lat params_v3)) (JNum (center_lon params_v3))
      = Inr 0"
    by blast
  have "computed_a ?up 0 0 0 180 = 1 + 1 / 2 ^ 52"
    by (simp add: computed_a_def exact_def radians_def)
  then have neg: "fl_sub ?up 1 (computed_a ?up 0 0 0 180) < 0"
    by (simp add: exact_def)
  have a_range: "\<bar>0\<bar> < float_limit \<and> \<bar>180\<bar> < float_limit"
    using float_limit_large by simp
  from emitted_distance [where F = ?up and clat = 0 and clon = 0 and lat = 0 and lon = 180,
      THEN conjunct2, THEN conjunct2, THEN conjunct2, THEN conjunct1, rule_format, OF a_range]
    neg
  have dv: "haversine_distance ?up 0 0 (JNum 0) (JNum 180) = Inl ValueError"
    by (simp only: if_True simp_thms)
  have r1: "wikipedia_row_v1 packages params_v1 ?pl1 = Inr ?row1"
    by (simp add: wikipedia_row_v1_def distance_v1_def place_def params_v1_def packages_def
        haversine_pkg_def Let_def py_sqrt_def exact_def)
  from emitted_distance [where L = packages and p = params_v1 and pl = ?pl1 and row' = ?row1]
    r1
  have "\<exists>la lo d. py_getitem ?pl1 ''lat'' = Inr la \<and> py_getitem ?pl1 ''lon'' = Inr lo
            \<and> lib_haversine packages (center_lat params_v1, center_lon params_v1) (la, lo) = Inr d
            \<and> ?row1 ! 4 = CFloat d"
    by blast
  then have e1: "lib_haversine packages (center_lat params_v1, center_lon params_v1)
        (JNum 38.897685330838804, JNum (- 77.03653317988284)) = Inr 0"
    by (auto simp: place_def)
  from r3 cd z d0 dv r1 e1 show ?thesis by (simp add: params_v3_def)
qed

text \<open>
  The claim as stated fails for \<^verbatim>\<open>geo2wiki-osm.py\<close>: for an article ten degrees north of
  its centre the row holds \<open>6371008.8 * pi / 18\<close>, the package's unrounded value for its
  own Earth radius, which is more than one half away from the distance for
  \<open>R = 6371000\<close>.
\<close>

theorem unrounded_distance_counterexample:
  "wikipedia_row_v1 packages params_v1
      (place ''Ten degrees north'' 48.897685330838804 (- 77.03653317988284))
     = Inr [CStr ''Wikipedia'', CVal (JStr ''Ten degrees north''),
            CVal (JNum 48.897685330838804), CVal (JNum (- 77.03653317988284)),
            CFloat (6371008.8 * pi / 18), CUrl (ArticleUrl ''Ten degrees north'')]
   \<and> great_circle 6371000 (center_lat params_v1) (center_lon params_v1)
        48.897685330838804 (- 77.03653317988284) = 6371000 * pi / 18
   \<and> \<not> \<bar>6371008.8 * pi / 18 - 6371000 * pi / 18\<bar> \<le> 1 / 2"
proof -
  have row: "wikipedia_row_v1 packages params_v1
      (place ''Ten degrees north'' 48.897685330838804 (- 77.03653317988284))
     = Inr [CStr ''Wikipedia'', CVal (JStr ''Ten degrees north''),
            CVal (JNum 48.897685330838804), CVal (JNum (- 77.03653317988284)),
            CFloat (6371008.8 * pi / 18), CUrl (ArticleUrl ''Ten degrees north'')]"
    using pkg_ten_degrees
    by (simp add: wikipedia_row_v1_def distance_v1_def place_def params_v1_def packages_def
       )
  have gc: "great_circle 6371000 (center_lat params_v1) (center_lon params_v1)
        48.897685330838804 (- 77.03653317988284) = 6371000 * pi / 18"
    using ten_degrees_north [of 6371000 "38.897685330838804" "- 77.03653317988284"]
    by (simp add: params_v1_def)
  have "6371008.8 * pi / 18 - 6371000 * pi / 18 = 8.8 * pi / 18" by simp
  moreover have "1 / 2 < 8.8 * pi / 18" using pi_ge_two by simp
  ultimately have far: "\<not> \<bar>6371008.8 * pi / 18 - 6371000 * pi / 18\<bar> \<le> 1 / 2" by linarith
  from row gc far show ?thesis by blast
qed

section \<open>Centroids\<close>

lemma centroid_v3_triangle:
  "calculate_centroid_v3 triangle_geometry = Inr (JNum (5 / 3), JNum 2)"
  by (simp add: calculate_centroid_v3_def vertex_mean_def triangle_geometry_def)

lemma centroid_v1_triangle:
  "calculate_centroid_v1 packages triangle_geometry = Inr (JNum (5 / 3), JNum 2)"
  by (simp add: calculate_centroid_v1_def packages_def shapely_centroid_def close_ring_def
      tri_area2_def triangle_geometry_def Let_def)

lemma triangle_way_rows:
  assumes "centroid triangle_geometry = Inr (JNum (5 / 3), JNum 2)"
  shows "feature_rows centroid distance triangle_way
     = bindE (distance (JNum (5 / 3)) (JNum 2)) (\<lambda>d.
         Inr [[CStr ''OSM'', CVal (JStr ''Triangle''), CVal (JNum (5 / 3)), CVal (JNum 2), d,
               CUrl (ElementUrl (JStr ''way'') (JNum 42))]])"
  using assms by (simp add: feature_rows_def triangle_way_def)

text \<open>
  C9. For the way with vertices (lat 1, lon 1), (lat 1, lon 3), (lat 3, lon 2) the
  centroid of \<^verbatim>\<open>geo2wiki-osm.py\<close> (the polygon's centroid, as \<^verbatim>\<open>shapely\<close> computes it)
  and the centroid of \<^verbatim>\<open>geo2wiki-osm_v3.py\<close> (the mean of the vertices) are the same
  point, latitude 5/3 and longitude 2, and in both scripts that point is the one whose
  distance is computed and that the row of the way holds.
\<close>

theorem triangle_centroids_agree:
  "calculate_centroid_v1 packages triangle_geometry = Inr (JNum (5 / 3), JNum 2)
   \<and> calculate_centroid_v3 triangle_geometry = Inr (JNum (5 / 3), JNum 2)
   \<and> feature_rows (calculate_centroid_v1 packages) distance triangle_way
      = bindE (distance (JNum (5 / 3)) (JNum 2)) (\<lambda>d.
         Inr [[CStr ''OSM'', CVal (JStr ''Triangle''), CVal (JNum (5 / 3)), CVal (JNum 2), d,
               CUrl (ElementUrl (JStr ''way'') (JNum 42))]])
   \<and> feature_rows calculate_centroid_v3 distance triangle_way
      = bindE (distance (JNum (5 / 3)) (JNum 2)) (\<lambda>d.
         Inr [[CStr ''OSM'', CVal (JStr ''Triangle''), CVal (JNum (5 / 3)), CVal (JNum 2), d,
               CUrl (ElementUrl (JStr ''way'') (JNum 42))]])"
  using centroid_v1_triangle centroid_v3_triangle
    triangle_way_rows [where centroid = "calculate_centroid_v1 packages" and distance = distance]
    triangle_way_rows [where centroid = calculate_centroid_v3 and distance = distance]
  by simp

text \<open>With the distance of \<^verbatim>\<open>geo2wiki-osm_v3.py\<close> in exact arithmetic and its centre: the
  row of the way.\<close>

theorem triangle_centroids_agree_witness:
  "feature_rows calculate_centroid_v3 (distance_v3 exact params_v3) triangle_way
     = Inr [[CStr ''OSM'', CVal (JStr ''Triangle''), CVal (JNum (5 / 3)), CVal (JNum 2),
             CInt (py_round (great_circle 6371000 38.89777476492068 (- 77.03654524519337)
                               (5 / 3) 2)),
             CUrl (ElementUrl (JStr ''way'') (JNum 42))]]"
  using triangle_centroids_agree [of "distance_v3 exact params_v3"]
    haversine_distance_num [of "5 / 3" 2 "38.89777476492068" "- 77.03654524519337"]
  by (simp add: distance_v3_def params_v3_def)

section \<open>The shape of the report\<close>

lemma mapE_length: "mapE f xs = Inr ys \<Longrightarrow> length ys = length xs"
  by (induction xs arbitrary: ys) (auto simp: bindE_eq_Inr)

lemma mapE_set: "mapE f xs = Inr ys \<Longrightarrow> y \<in> set ys \<Longrightarrow> \<exists>x\<in>set xs. f x = Inr y"
  by (induction xs arbitrary: ys) (auto simp: bindE_eq_Inr)

lemma filterE_filter: "filterE f xs = Inr ys \<Longrightarrow> ys = filter (\<lambda>x. f x = Inr True) xs"
  by (induction xs arbitrary: ys) (auto simp: bindE_eq_Inr)

lemma feature_rows_shape:
  assumes "feature_rows centroid distance element = Inr rs"
  shows "rs = [] \<or> (\<exists>r. rs = [r] \<and> hd r = CStr ''OSM'')"
  using assms by (auto simp: feature_rows_def bindE_eq_Inr split: if_splits)

lemma concat_rows_shape:
  assumes "\<forall>rs\<in>set rss. rs = [] \<or> (\<exists>r. rs = [r] \<and> hd r = CStr ''OSM'')"
  shows "length (concat rss) \<le> length rss \<and> (\<forall>r\<in>set (concat rss). hd r = CStr ''OSM'')"
  using assms by (induction rss) auto

lemma osm_feature_rows_shape:
  assumes "osm_feature_rows centroid distance collected = Inr rows"
  shows "(\<forall>r\<in>set rows. hd r = CStr ''OSM'')
       \<and> (filter (\<lambda>x. has_name x = Inr True) collected = [] \<longrightarrow> rows = [features_placeholder])
       \<and> (filter (\<lambda>x. has_name x = Inr True) collected \<noteq> [] \<longrightarrow>
            length rows \<le> length (filter (\<lambda>x. has_name x = Inr True) collected))"
proof -
  from assms obtain named where named: "filterE has_name collected = Inr named"
    and rest: "(if named \<noteq> [] then
         bindE (mapE (feature_rows centroid distance) named) (\<lambda>rs. Inr (concat rs))
       else Inr [features_placeholder]) = Inr rows"
    by (auto simp: osm_feature_rows_def bindE_eq_Inr)
  note f = filterE_filter [OF named]
  show ?thesis
  proof (cases "named = []")
    case True
    then show ?thesis using rest f by (auto simp: features_placeholder_def)
  next
    case False
    then obtain rss where rss: "mapE (feature_rows centroid distance) named = Inr rss"
      and rows: "rows = concat rss"
      using rest by (auto simp: bindE_eq_Inr)
    have "\<forall>rs\<in>set rss. rs = [] \<or> (\<exists>r. rs = [r] \<and> hd r = CStr ''OSM'')"
      using mapE_set [OF rss] feature_rows_shape by blast
    from concat_rows_shape [OF this] mapE_length [OF rss] rows False f show ?thesis by simp
  qed
qed

lemma admin_rows_shape:
  assumes "admin_rows p a = Inr rows"
  shows "\<exists>r. rows = [r] \<and> hd r = CStr ''OSM'' \<and> (\<not> py_truthy a \<longrightarrow> r = admin_placeholder)"
  using assms by (auto simp: admin_rows_def bindE_eq_Inr admin_placeholder_def split: if_splits)

lemma slice_to_nonempty: "xs \<noteq> [] \<Longrightarrow> 1 \<le> n \<Longrightarrow> slice_to xs n \<noteq> []"
  by (cases xs) (auto simp: slice_to_def)

lemma wikipedia_rows_v1_shape:
  assumes "wikipedia_rows_v1 L p results = Inr rows" "1 \<le> max_results p"
  shows "rows \<noteq> [] \<and> (\<forall>r\<in>set rows. hd r = CStr ''Wikipedia'')
       \<and> (results = [] \<longrightarrow> rows = [wikipedia_placeholder])"
proof (cases "results = []")
  case True
  then show ?thesis using assms by (auto simp: wikipedia_rows_v1_def wikipedia_placeholder_def)
next
  case False
  then have m: "mapE (wikipedia_row_v1 L p) (slice_to results (max_results p)) = Inr rows"
    using assms by (simp add: wikipedia_rows_v1_def)
  have "rows \<noteq> []"
    using mapE_length [OF m] slice_to_nonempty [OF False assms(2)] by auto
  moreover have "hd r = CStr ''Wikipedia''" if "r \<in> set rows" for r
    using mapE_set [OF m that] by (auto simp: wikipedia_row_v1_def bindE_eq_Inr)
  ultimately show ?thesis using False by simp
qed

lemma wikipedia_rows_v3_shape:
  assumes "wikipedia_rows_v3 F p u results = Inr rows" "1 \<le> max_results p"
  shows "rows \<noteq> [] \<and> (\<forall>r\<in>set rows. hd r = CStr ''Wikipedia'')
       \<and> (py_len results = Inr 0 \<longrightarrow> rows = [wikipedia_placeholder])"
proof -
  from assms obtain n where n: "py_len results = Inr n"
    by (auto simp: wikipedia_rows_v3_def bindE_eq_Inr)
  show ?thesis
  proof (cases "1 \<le> n")
    case False
    then show ?thesis using assms n by (auto simp: wikipedia_rows_v3_def wikipedia_placeholder_def)
  next
    case True
    then obtain sl places where sl: "py_slice_to results (max_results p) = Inr sl"
      and places: "py_iter sl = Inr places"
      and m: "mapE (\<lambda>ip. wikipedia_row_v3 F p (u (fst ip)) (snd ip)) (enumerate 0 places) = Inr rows"
      using assms n by (auto simp: wikipedia_rows_v3_def bindE_eq_Inr)
    have "places \<noteq> []"
    proof (cases results)
      case (JArr xs)
      then have "xs \<noteq> []" using n True by auto
      then have "slice_to xs (max_results p) \<noteq> []"
        using assms(2) by (rule slice_to_nonempty)
      then show ?thesis using JArr sl places by auto
    next
      case (JStr cs)
      then have "code_points cs \<noteq> []" using n True by auto
      then have ne: "slice_to (code_points cs) (max_results p) \<noteq> []"
        using assms(2) by (rule slice_to_nonempty)
      then obtain g gs where g: "slice_to (code_points cs) (max_results p) = g # gs"
        by (cases "slice_to (code_points cs) (max_results p)") auto
      then have "g \<in> set (code_points cs)"
        using set_slice_to [of "code_points cs" "max_results p"] by auto
      then have "g \<noteq> []" by (rule code_points_nonempty)
      then have "concat (slice_to (code_points cs) (max_results p)) \<noteq> []"
        using g by simp
      then show ?thesis using JStr sl places by auto
    qed (use sl in simp_all)
    then have "rows \<noteq> []" using mapE_length [OF m] by auto
    moreover have "hd r = CStr ''Wikipedia''" if "r \<in> set rows" for r
      using mapE_set [OF m that] by (auto simp: wikipedia_row_v3_def bindE_eq_Inr)
    ultimately show ?thesis using True n by simp
  qed
qed

section \<open>Invariants of the loops\<close>






section \<open>Runs and their reports\<close>

lemma fixed_rows_ok [simp]:
  "list_all cell_ok csv_header" "list_all cell_ok wikipedia_placeholder"
  "list_all cell_ok admin_placeholder" "list_all cell_ok features_placeholder"
  by (simp_all add: csv_header_def wikipedia_placeholder_def admin_placeholder_def
      features_placeholder_def)

lemma write_csv_Inr: "write_csv rows = Inr csv \<Longrightarrow> csv = rows"
  by (auto simp: write_csv_def split: if_splits)

lemmas report_eval =
  build_report_v3_def wikipedia_rows_v3_def wikipedia_row_v3_def distance_v3_def
  build_report_v1_def wikipedia_rows_v1_def wikipedia_row_v1_def distance_v1_def
  admin_rows_def osm_feature_rows_def feature_rows_def has_name_def
  calculate_centroid_v3_def calculate_centroid_v1_def get_wikipedia_url_v3_def
  slice_to_def haversine_distance_num write_csv_def




text \<open>
  C10, as amended. With \<open>max_results\<close> at least 1, the file of a run that completes
  holds the header row, then at least one row of the Wikipedia group (the placeholder when
  no result was found), then one row of the administrative-info group (the placeholder
  when nothing was retained), then the rows of the nearby-features group: the placeholder
  alone when no collected element has a non-empty name, and otherwise at most one row for
  each such element. Every row after the header starts with \<open>Wikipedia\<close> or \<open>OSM\<close>, and
  there are at least two of them.
\<close>

theorem report_shape:
  assumes "1 \<le> max_results p"
  shows "(run_v3 F E p = Some (Inr csv) \<longrightarrow>
          (\<exists>st w a f.
             controller_loop_v3 E p (initial_state_v3 p) = Some (Exited st)
             \<and> csv = csv_header # w @ [a] @ f
             \<and> w \<noteq> [] \<and> (\<forall>r\<in>set w. hd r = CStr ''Wikipedia'')
             \<and> (py_len (wiki_results st) = Inr 0 \<longrightarrow> w = [wikipedia_placeholder])
             \<and> hd a = CStr ''OSM''
             \<and> (\<not> py_truthy (osm_admin_data st) \<longrightarrow> a = admin_placeholder)
             \<and> (\<forall>r\<in>set f. hd r = CStr ''OSM'')
             \<and> (filter (\<lambda>x. has_name x = Inr True) (osm_features_data st) = []
                  \<longrightarrow> f = [features_placeholder])
             \<and> (filter (\<lambda>x. has_name x = Inr True) (osm_features_data st) \<noteq> []
                  \<longrightarrow> length f \<le> length (filter (\<lambda>x. has_name x = Inr True) (osm_features_data st)))
             \<and> 3 \<le> length csv))
       \<and> (run_v1 L E p = Some (Inr csv') \<longrightarrow>
          (\<exists>st w a f.
             controller_loop_v1 E p (initial_state_v1 p) = Some (Exited st)
             \<and> csv' = csv_header # w @ [a] @ f
             \<and> w \<noteq> [] \<and> (\<forall>r\<in>set w. hd r = CStr ''Wikipedia'')
             \<and> (wiki_results st = [] \<longrightarrow> w = [wikipedia_placeholder])
             \<and> hd a = CStr ''OSM''
             \<and> (\<not> py_truthy (osm_admin_data st) \<longrightarrow> a = admin_placeholder)
             \<and> (\<forall>r\<in>set f. hd r = CStr ''OSM'')
             \<and> (filter (\<lambda>x. has_name x = Inr True) (osm_features_data st) = []
                  \<longrightarrow> f = [features_placeholder])
             \<and> (filter (\<lambda>x. has_name x = Inr True) (osm_features_data st) \<noteq> []
                  \<longrightarrow> length f \<le> length (filter (\<lambda>x. has_name x = Inr True) (osm_features_data st)))
             \<and> 3 \<le> length csv'))"
proof (intro conjI impI)
  assume "run_v3 F E p = Some (Inr csv)"
  then obtain st where loop: "controller_loop_v3 E p (initial_state_v3 p) = Some (Exited st)"
    and rep: "build_report_v3 F p (url_env E) st = Inr csv"
    by (auto simp: run_v3_def bindE_eq_Inr split: option.splits loop_exit.splits
        dest: write_csv_Inr)
  from rep obtain w a' f where
    w: "wikipedia_rows_v3 F p (url_env E) (wiki_results st) = Inr w"
    and a': "admin_rows p (osm_admin_data st) = Inr a'"
    and f: "osm_feature_rows calculate_centroid_v3 (distance_v3 F p) (osm_features_data st) = Inr f"
    and csv: "csv = csv_header # w @ a' @ f"
    by (auto simp: build_report_v3_def bindE_eq_Inr)
  from admin_rows_shape [OF a'] obtain a where
    a: "a' = [a]" "hd a = CStr ''OSM''" "\<not> py_truthy (osm_admin_data st) \<longrightarrow> a = admin_placeholder"
    by blast
  note ws = wikipedia_rows_v3_shape [OF w assms]
  note fs = osm_feature_rows_shape [OF f]
  have "3 \<le> length csv" using ws csv a(1) by (cases w) auto
  with loop csv a ws fs show "\<exists>st w a f.
             controller_loop_v3 E p (initial_state_v3 p) = Some (Exited st)
             \<and> csv = csv_header # w @ [a] @ f
             \<and> w \<noteq> [] \<and> (\<forall>r\<in>set w. hd r = CStr ''Wikipedia'')
             \<and> (py_len (wiki_results st) = Inr 0 \<longrightarrow> w = [wikipedia_placeholder])
             \<and> hd a = CStr ''OSM''
             \<and> (\<not> py_truthy (osm_admin_data st) \<longrightarrow> a = admin_placeholder)
             \<and> (\<forall>r\<in>set f. hd r = CStr ''OSM'')
             \<and> (filter (\<lambda>x. has_name x = Inr True) (osm_features_data st) = []
                  \<longrightarrow> f = [features_placeholder])
             \<and> (filter (\<lambda>x. has_name x = Inr True) (osm_features_data st) \<noteq> []
                  \<longrightarrow> length f \<le> length (filter (\<lambda>x. has_name x = Inr True) (osm_features_data st)))
             \<and> 3 \<le> length csv"
    by blast
next
  assume "run_v1 L E p = Some (Inr csv')"
  then obtain st where loop: "controller_loop_v1 E p (initial_state_v1 p) = Some (Exited st)"
    and rep: "build_report_v1 L p st = Inr csv'"
    by (auto simp: run_v1_def bindE_eq_Inr split: option.splits loop_exit.splits
        dest: write_csv_Inr)
  from rep obtain w a' f where
    w: "wikipedia_rows_v1 L p (wiki_results st) = Inr w"
    and a': "admin_rows p (osm_admin_data st) = Inr a'"
    and f: "osm_feature_rows (calculate_centroid_v1 L) (distance_v1 L p) (osm_features_data st)
        = Inr f"
    and csv: "csv' = csv_header # w @ a' @ f"
    by (auto simp: build_report_v1_def bindE_eq_Inr)
  from admin_rows_shape [OF a'] obtain a where
    a: "a' = [a]" "hd a = CStr ''OSM''" "\<not> py_truthy (osm_admin_data st) \<longrightarrow> a = admin_placeholder"
    by blast
  note ws = wikipedia_rows_v1_shape [OF w assms]
  note fs = osm_feature_rows_shape [OF f]
  have "3 \<le> length csv'" using ws csv a(1) by (cases w) auto
  with loop csv a ws fs show "\<exists>st w a f.
             controller_loop_v1 E p (initial_state_v1 p) = Some (Exited st)
             \<and> csv' = csv_header # w @ [a] @ f
             \<and> w \<noteq> [] \<and> (\<forall>r\<in>set w. hd r = CStr ''Wikipedia'')
             \<and> (wiki_results st = [] \<longrightarrow> w = [wikipedia_placeholder])
             \<and> hd a = CStr ''OSM''
             \<and> (\<not> py_truthy (osm_admin_data st) \<longrightarrow> a = admin_placeholder)
             \<and> (\<forall>r\<in>set f. hd r = CStr ''OSM'')
             \<and> (filter (\<lambda>x. has_name x = Inr True) (osm_features_data st) = []
                  \<longrightarrow> f = [features_placeholder])
             \<and> (filter (\<lambda>x. has_name x = Inr True) (osm_features_data st) \<noteq> []
                  \<longrightarrow> length f \<le> length (filter (\<lambda>x. has_name x = Inr True) (osm_features_data st)))
             \<and> 3 \<le> length csv'"
    by blast
qed

text \<open>
  No article is found, the reverse geocoder answers, and one named node is collected at
  the first radius: the file holds the header, the Wikipedia placeholder, the row of the
  administrative area and the row of the node.
\<close>

theorem report_shape_witness:
  "1 \<le> max_results params_v3
   \<and> run_v3 exact env_node params_v3
      = Some (Inr [csv_header, wikipedia_placeholder,
          [CStr ''OSM'', CVal (JStr ''Washington, District of Columbia''),
           CFloat 38.89777476492068, CFloat (- 77.03654524519337), CInt 0,
           CUrl (MapViewerUrl 38.89777476492068 (- 77.03654524519337))],
          [CStr ''OSM'', CVal (JStr ''Corner Cafe''), CVal (JNum 38.8981),
           CVal (JNum (- 77.0369)),
           CInt (py_round (great_circle 6371000 38.89777476492068 (- 77.03654524519337)
                             38.8981 (- 77.0369))),
           CUrl (ElementUrl (JStr ''node'') (JNum 9))]])
   \<and> (\<exists>st w a f.
         controller_loop_v3 env_node params_v3 (initial_state_v3 params_v3) = Some (Exited st)
         \<and> [csv_header, wikipedia_placeholder,
          [CStr ''OSM'', CVal (JStr ''Washington, District of Columbia''),
           CFloat 38.89777476492068, CFloat (- 77.03654524519337), CInt 0,
           CUrl (MapViewerUrl 38.89777476492068 (- 77.03654524519337))],
          [CStr ''OSM'', CVal (JStr ''Corner Cafe''), CVal (JNum 38.8981),
           CVal (JNum (- 77.0369)),
           CInt (py_round (great_circle 6371000 38.89777476492068 (- 77.03654524519337)
                             38.8981 (- 77.0369))),
           CUrl (ElementUrl (JStr ''node'') (JNum 9))]] = csv_header # w @ [a] @ f
         \<and> w \<noteq> [] \<and> hd a = CStr ''OSM'')
   \<and> run_v1 packages env_404 params_v1
      = Some (Inr [csv_header, wikipedia_placeholder, admin_placeholder, features_placeholder])"
proof -
  let ?csv = "[csv_header, wikipedia_placeholder,
          [CStr ''OSM'', CVal (JStr ''Washington, District of Columbia''),
           CFloat 38.89777476492068, CFloat (- 77.03654524519337), CInt 0,
           CUrl (MapViewerUrl 38.89777476492068 (- 77.03654524519337))],
          [CStr ''OSM'', CVal (JStr ''Corner Cafe''), CVal (JNum 38.8981),
           CVal (JNum (- 77.0369)),
           CInt (py_round (great_circle 6371000 38.89777476492068 (- 77.03654524519337)
                             38.8981 (- 77.0369))),
           CUrl (ElementUrl (JStr ''node'') (JNum 9))]]"
  have m: "1 \<le> max_results params_v3" by (simp add: params_v3_def)
  have m1: "1 \<le> max_results params_v1" by (simp add: params_v1_def)
  have r3: "run_v3 exact env_node params_v3 = Some (Inr ?csv)"
    unfolding run_v3_def
    by (simp add: controller_loop_v3.simps loop_eval report_eval env_node_def cafe_node_def
        admin_answer_def overpass_answer_def)
  have r1: "run_v1 packages env_404 params_v1
      = Some (Inr [csv_header, wikipedia_placeholder, admin_placeholder, features_placeholder])"
    unfolding run_v1_def
    by (simp add: controller_loop_v1.simps loop_eval report_eval env_404_def)
  from report_shape [OF m, where F = exact and E = env_node and csv = ?csv, THEN conjunct1] r3
  have e3: "\<exists>st w a f.
         controller_loop_v3 env_node params_v3 (initial_state_v3 params_v3) = Some (Exited st)
         \<and> ?csv = csv_header # w @ [a] @ f \<and> w \<noteq> [] \<and> hd a = CStr ''OSM''"
    by blast
  from report_shape [OF m1, where L = packages and E = env_404, THEN conjunct2] r1
  have "3 \<le> length [csv_header, wikipedia_placeholder, admin_placeholder, features_placeholder]"
    by blast
  with m r3 e3 r1 show ?thesis by blast
qed

text \<open>
  The claim as stated fails when every named element collected has no position: here the
  nearby-features service returns one named way without vertices in each of the 20
  iterations, \<^verbatim>\<open>calculate_centroid\<close> gives \<^verbatim>\<open>(None, None)\<close> for it, and the file holds two
  data rows, none of them for the nearby-features group.
\<close>

theorem report_shape_counterexample:
  "run_v3 exact env_empty_way params_v3
     = Some (Inr [csv_header, wikipedia_placeholder, admin_placeholder])
   \<and> run_v1 packages env_empty_way params_v1
     = Some (Inr [csv_header, wikipedia_placeholder, admin_placeholder])
   \<and> has_name empty_way = Inr True"
proof -
  have a: "run_v3 exact env_empty_way params_v3
     = Some (Inr [csv_header, wikipedia_placeholder, admin_placeholder])"
    unfolding run_v3_def
    by (simp add: controller_loop_v3.simps loop_eval report_eval env_empty_way_def
        empty_way_def overpass_answer_def)
  have b: "run_v1 packages env_empty_way params_v1
     = Some (Inr [csv_header, wikipedia_placeholder, admin_placeholder])"
    unfolding run_v1_def
    by (simp add: controller_loop_v1.simps loop_eval report_eval env_empty_way_def
        empty_way_def overpass_answer_def)
  have c: "has_name empty_way = Inr True"
    by (simp add: has_name_def empty_way_def)
  from a b c show ?thesis by simp
qed

section \<open>Named elements with a zero coordinate\<close>

text \<open>
  C6. The test \<^verbatim>\<open>if lat and lon\<close> takes a coordinate that is 0 for a missing one: the
  named node \<open>meridian_node\<close>, at latitude 51.4779 and longitude 0, passes the name
  filter and has its own coordinate, and yet neither script writes a row for it (nor a
  placeholder).
\<close>

theorem named_node_on_meridian_is_dropped:
  "has_name meridian_node = Inr True
   \<and> py_getitem meridian_node ''lat'' = Inr (JNum 51.4779)
   \<and> py_getitem meridian_node ''lon'' = Inr (JNum 0)
   \<and> osm_feature_rows calculate_centroid_v3 (distance_v3 exact params_v3) [meridian_node] = Inr []
   \<and> osm_feature_rows (calculate_centroid_v1 packages) (distance_v1 packages params_v1)
        [meridian_node] = Inr []"
  by (simp add: has_name_def osm_feature_rows_def feature_rows_def meridian_node_def)

end
